theory Spec2Isabelle
  imports Main
begin

section \<open>Python values\<close>

text \<open>
  A Python \<^verbatim>\<open>str\<close> is a sequence of Unicode code points, lone surrogates included (JSON
  decoding keeps an escaped one such as \<^verbatim>\<open>"\ud800"\<close>). \<open>ascii\<close> reads the text of a literal
  of the source.
\<close>

type_synonym pystr = "nat list"

definition ascii :: "string \<Rightarrow> pystr" where
  "ascii s = map of_char s"

text \<open>
  The values the handlers of \<^verbatim>\<open>app.py\<close> move around: what \<^verbatim>\<open>request.json\<close> decodes
  a body to, and what the accessors of a matched element return. Floats are left out.
\<close>

datatype pyval =
    PyNone
  | PyBool bool
  | PyInt int
  | PyStr pystr
  | PyList "pyval list"
  | PyDict "(pystr \<times> pyval) list"

text \<open>
  Exceptions, by the most specific class that matters to an \<^verbatim>\<open>except\<close> clause of the file,
  with the text \<^verbatim>\<open>str(e)\<close> gives. \<^verbatim>\<open>TimeoutException\<close> is a subclass of
  \<^verbatim>\<open>WebDriverException\<close>; every class is a subclass of \<^verbatim>\<open>Exception\<close>.
\<close>

datatype exn_class =
    AttributeError
  | TypeError
  | UnicodeEncodeError
  | RequestException
  | TimeoutException
  | WebDriverException
  | OtherException

datatype exn = Exn exn_class pystr

fun exn_str :: "exn \<Rightarrow> pystr" where
  "exn_str (Exn c m) = m"

fun is_WebDriverException :: "exn \<Rightarrow> bool" where
  "is_WebDriverException (Exn c m) = (c = WebDriverException \<or> c = TimeoutException)"

fun is_TimeoutException :: "exn \<Rightarrow> bool" where
  "is_TimeoutException (Exn c m) = (c = TimeoutException)"

fun is_RequestException :: "exn \<Rightarrow> bool" where
  "is_RequestException (Exn c m) = (c = RequestException)"

fun type_name :: "pyval \<Rightarrow> pystr" where
  "type_name PyNone = ascii ''NoneType''"
| "type_name (PyBool b) = ascii ''bool''"
| "type_name (PyInt i) = ascii ''int''"
| "type_name (PyStr s) = ascii ''str''"
| "type_name (PyList xs) = ascii ''list''"
| "type_name (PyDict kvs) = ascii ''dict''"

definition no_attribute :: "pyval \<Rightarrow> pystr \<Rightarrow> exn" where
  "no_attribute v name =
     Exn AttributeError
       ([39] @ type_name v @ [39] @ ascii '' object has no attribute '' @ [39] @ name @ [39])"

subsection \<open>Truthiness\<close>

fun py_bool :: "pyval \<Rightarrow> bool" where
  "py_bool PyNone = False"
| "py_bool (PyBool b) = b"
| "py_bool (PyInt i) = (i \<noteq> 0)"
| "py_bool (PyStr s) = (s \<noteq> [])"
| "py_bool (PyList xs) = (xs \<noteq> [])"
| "py_bool (PyDict kvs) = (kvs \<noteq> [])"

subsection \<open>\<^verbatim>\<open>str\<close>, \<^verbatim>\<open>repr\<close> and string methods\<close>

text \<open>
  Two things Python reads from the Unicode database are not reproduced here and are
  parameters: \<^verbatim>\<open>str.lower()\<close> of a text that is not all ASCII, and whether a code point
  from 128 on is printable.
\<close>

record unicode_db =
  ucd_lower :: "pystr \<Rightarrow> pystr"
  ucd_printable :: "nat \<Rightarrow> bool"

function str_nat :: "nat \<Rightarrow> pystr" where
  "str_nat n = (if n < 10 then [48 + n] else str_nat (n div 10) @ [48 + n mod 10])"
  by pat_completeness auto
termination
  by (relation "measure (\<lambda>n. n)") auto

declare str_nat.simps [simp del]

definition str_int :: "int \<Rightarrow> pystr" where
  "str_int i = (if i < 0 then 45 # str_nat (nat (- i)) else str_nat (nat i))"

fun str_join :: "pystr \<Rightarrow> pystr list \<Rightarrow> pystr" where
  "str_join sep [] = []"
| "str_join sep [x] = x"
| "str_join sep (x # y # ys) = x @ sep @ str_join sep (y # ys)"

definition hex_digit :: "nat \<Rightarrow> nat" where
  "hex_digit n = (if n mod 16 < 10 then 48 + n mod 16 else 87 + n mod 16)"

definition hex2 :: "nat \<Rightarrow> pystr" where
  "hex2 c = [hex_digit (c div 16), hex_digit c]"

definition hex4 :: "nat \<Rightarrow> pystr" where
  "hex4 c = hex2 (c div 256) @ hex2 c"

definition hex8 :: "nat \<Rightarrow> pystr" where
  "hex8 c = hex4 (c div 65536) @ hex4 c"

text \<open>
  \<^verbatim>\<open>repr\<close> of a \<^verbatim>\<open>str\<close>: single quotes, unless the text has a single quote and no
  double quote; the quote and the backslash escaped, tab, newline and carriage return
  by letter, every other unprintable code point as \<^verbatim>\<open>\xhh\<close>, \<^verbatim>\<open>\uhhhh\<close> or
  \<^verbatim>\<open>\Uhhhhhhhh\<close>.
\<close>

definition unprintable :: "unicode_db \<Rightarrow> nat \<Rightarrow> bool" where
  "unprintable db c = (if c < 128 then c < 32 \<or> c = 127 else \<not> ucd_printable db c)"

definition repr_char :: "unicode_db \<Rightarrow> nat \<Rightarrow> nat \<Rightarrow> pystr" where
  "repr_char db q c =
     (if c = q \<or> c = 92 then [92, c]
      else if c = 9 then [92, 116]
      else if c = 10 then [92, 110]
      else if c = 13 then [92, 114]
      else if unprintable db c then
        (if c < 256 then [92, 120] @ hex2 c
         else if c < 65536 then [92, 117] @ hex4 c
         else [92, 85] @ hex8 c)
      else [c])"

definition repr_str :: "unicode_db \<Rightarrow> pystr \<Rightarrow> pystr" where
  "repr_str db s =
     (let q = (if 39 \<in> set s \<and> 34 \<notin> set s then 34 else 39)
      in q # concat (map (repr_char db q) s) @ [q])"

fun py_repr :: "unicode_db \<Rightarrow> pyval \<Rightarrow> pystr" where
  "py_repr db PyNone = ascii ''None''"
| "py_repr db (PyBool b) = (if b then ascii ''True'' else ascii ''False'')"
| "py_repr db (PyInt i) = str_int i"
| "py_repr db (PyStr s) = repr_str db s"
| "py_repr db (PyList xs) = ascii ''['' @ str_join (ascii '', '') (map (py_repr db) xs) @ ascii '']''"
| "py_repr db (PyDict kvs) =
     ascii ''{'' @
     str_join (ascii '', '')
       (map (\<lambda>(k, v). repr_str db k @ ascii '': '' @ py_repr db v) kvs) @
     ascii ''}''"

text \<open>\<^verbatim>\<open>str(v)\<close>, which is also what an f-string field \<^verbatim>\<open>{v}\<close> inserts.\<close>

fun py_str :: "unicode_db \<Rightarrow> pyval \<Rightarrow> pystr" where
  "py_str db (PyStr s) = s"
| "py_str db v = py_repr db v"

text \<open>The code points that \<^verbatim>\<open>str.strip()\<close> removes.\<close>

definition is_space :: "nat \<Rightarrow> bool" where
  "is_space c =
     (c \<in> set [9, 10, 11, 12, 13, 28, 29, 30, 31, 32, 133, 160, 5760, 8192, 8193, 8194,
                8195, 8196, 8197, 8198, 8199, 8200, 8201, 8202, 8232, 8233, 8239, 8287,
                12288])"

definition py_strip :: "pystr \<Rightarrow> pystr" where
  "py_strip s = rev (dropWhile is_space (rev (dropWhile is_space s)))"

definition lower_ascii :: "nat \<Rightarrow> nat" where
  "lower_ascii c = (if 65 \<le> c \<and> c \<le> 90 then c + 32 else c)"

definition str_lower :: "unicode_db \<Rightarrow> pystr \<Rightarrow> pystr" where
  "str_lower db s = (if list_all (\<lambda>c. c < 128) s then map lower_ascii s else ucd_lower db s)"

text \<open>\<^verbatim>\<open>v.lower()\<close>: only a \<^verbatim>\<open>str\<close> has the method.\<close>

fun py_lower :: "unicode_db \<Rightarrow> pyval \<Rightarrow> exn + pystr" where
  "py_lower db (PyStr s) = Inr (str_lower db s)"
| "py_lower db v = Inl (no_attribute v (ascii ''lower''))"

text \<open>\<^verbatim>\<open>" ".join(xs)\<close>: a \<^verbatim>\<open>TypeError\<close> at the first item that is not a \<^verbatim>\<open>str\<close>.\<close>

fun join_items :: "nat \<Rightarrow> pyval list \<Rightarrow> exn + pystr list" where
  "join_items i [] = Inr []"
| "join_items i (PyStr s # xs) =
     (case join_items (Suc i) xs of Inl e \<Rightarrow> Inl e | Inr ss \<Rightarrow> Inr (s # ss))"
| "join_items i (v # xs) =
     Inl (Exn TypeError
            (ascii ''sequence item '' @ str_nat i @ ascii '': expected str instance, '' @
             type_name v @ ascii '' found''))"

definition py_join :: "pystr \<Rightarrow> pyval list \<Rightarrow> exn + pyval" where
  "py_join sep xs =
     (case join_items 0 xs of Inl e \<Rightarrow> Inl e | Inr ss \<Rightarrow> Inr (PyStr (str_join sep ss)))"

text \<open>\<^verbatim>\<open>d.get(key, default)\<close>: only a \<^verbatim>\<open>dict\<close> has the method.\<close>

fun py_get :: "pyval \<Rightarrow> pystr \<Rightarrow> pyval \<Rightarrow> exn + pyval" where
  "py_get (PyDict kvs) key dflt =
     Inr (case map_of kvs key of None \<Rightarrow> dflt | Some v \<Rightarrow> v)"
| "py_get v key dflt = Inl (no_attribute v (ascii ''get''))"

section \<open>The outside world\<close>

text \<open>
  A matched element is a handle into a parsed or live document. It is given here by what
  each accessor that \<^verbatim>\<open>extract_data_from_elements\<close> calls on it returns or raises:
  \<^verbatim>\<open>el.text\<close>, \<^verbatim>\<open>el.get_attribute(name)\<close> and \<^verbatim>\<open>el.get_property(name)\<close> of a Selenium
  element, \<^verbatim>\<open>el.get_text(strip=True)\<close> and \<^verbatim>\<open>el.get(name)\<close> of a Beautiful Soup tag.
\<close>

record element =
  el_text :: "exn + pystr"
  el_get_attribute :: "pystr \<Rightarrow> exn + pyval"
  el_get_property :: "pystr \<Rightarrow> exn + pyval"
  el_get_text :: "exn + pystr"
  el_get :: "pystr \<Rightarrow> exn + pyval"

record http_response =
  status_code :: nat
  reason :: pystr
  resp_url :: pystr
  resp_text :: pystr

text \<open>\<^verbatim>\<open>response.raise_for_status()\<close> of the \<^verbatim>\<open>requests\<close> library.\<close>

definition raise_for_status :: "http_response \<Rightarrow> exn option" where
  "raise_for_status r =
     (if 400 \<le> status_code r \<and> status_code r < 500 then
        Some (Exn RequestException
                (str_nat (status_code r) @ ascii '' Client Error: '' @ reason r @
                 ascii '' for url: '' @ resp_url r))
      else if 500 \<le> status_code r \<and> status_code r < 600 then
        Some (Exn RequestException
                (str_nat (status_code r) @ ascii '' Server Error: '' @ reason r @
                 ascii '' for url: '' @ resp_url r))
      else None)"

text \<open>
  A browser session: \<^verbatim>\<open>driver.get(url)\<close>, the wait
  \<^verbatim>\<open>WebDriverWait(driver, wait_time).until(presence_of_all_elements_located(...))\<close>
  and \<^verbatim>\<open>driver.find_elements(By.CSS_SELECTOR, selector)\<close>.
\<close>

record driver =
  drv_get :: "pyval \<Rightarrow> exn option"
  drv_wait_until :: "pyval \<Rightarrow> pyval \<Rightarrow> exn option"
  drv_find_elements :: "pyval \<Rightarrow> exn + element list"

text \<open>
  What the handlers reach outside the program is read from an environment, fixed for one
  request: the decoded body, the standard output, the Unicode database, the HTTP client,
  the HTML parser, the browser driver and the clock. Each entry gives what the call
  returns or the exception it raises. \<open>stdout_write\<close> is what writing one line to
  \<^verbatim>\<open>sys.stdout\<close> raises, if anything. \<^verbatim>\<open>driver.quit()\<close> is taken to return.
\<close>

record env =
  request_json :: "exn + pyval"
  stdout_write :: "pystr \<Rightarrow> exn option"
  ucd :: unicode_db
  requests_get :: "pyval \<Rightarrow> exn + http_response"
  html_parser :: "pystr \<Rightarrow> exn + (pyval \<Rightarrow> exn + element list)"
  driver_install :: "exn + pystr"
  webdriver_Chrome :: "pystr \<Rightarrow> pystr list \<Rightarrow> exn + driver"
  elapsed_static :: int
  elapsed_rendered :: int
  now :: int

text \<open>\<^verbatim>\<open>print(line)\<close>: \<open>Some\<close> is the exception it raises.\<close>

definition py_print :: "env \<Rightarrow> pystr \<Rightarrow> exn option" where
  "py_print env line = stdout_write env line"

text \<open>
  The standard output of a default deployment: UTF-8 with strict error handling, which
  takes every text but one with a surrogate code point. The message is the one of
  \<^verbatim>\<open>UnicodeEncodeError\<close>, for one surrogate or for a run of them.
\<close>

definition is_surrogate :: "nat \<Rightarrow> bool" where
  "is_surrogate c = (55296 \<le> c \<and> c \<le> 57343)"

definition utf8_strict :: "pystr \<Rightarrow> exn option" where
  "utf8_strict line =
     (let ahead = takeWhile (\<lambda>c. \<not> is_surrogate c) line;
          run = takeWhile is_surrogate (dropWhile (\<lambda>c. \<not> is_surrogate c) line)
      in if run = [] then None
         else if length run = 1 then
           Some (Exn UnicodeEncodeError
                   ([39] @ ascii ''utf-8'' @ [39] @ ascii '' codec can'' @ [39] @
                    ascii ''t encode character '' @ [39, 92, 117] @ hex4 (hd run) @ [39] @
                    ascii '' in position '' @ str_nat (length ahead) @
                    ascii '': surrogates not allowed''))
         else
           Some (Exn UnicodeEncodeError
                   ([39] @ ascii ''utf-8'' @ [39] @ ascii '' codec can'' @ [39] @
                    ascii ''t encode characters in position '' @ str_nat (length ahead) @
                    ascii ''-'' @ str_nat (length ahead + length run - 1) @
                    ascii '': surrogates not allowed'')))"

text \<open>
  The effects of a handler on the network and the browser, in the order they happen:
  the HTTP request, the call of \<^verbatim>\<open>setup_chrome_driver\<close>, the session that
  \<^verbatim>\<open>webdriver.Chrome\<close> returns, \<^verbatim>\<open>driver.get\<close>, the wait, \<^verbatim>\<open>time.sleep\<close>,
  \<^verbatim>\<open>driver.find_elements\<close> and \<^verbatim>\<open>driver.quit\<close>. What is written to the standard output
  is not recorded.
\<close>

datatype event =
    HttpGet pyval
  | DriverSetup
  | SessionStart
  | Navigate pyval
  | Wait pyval
  | Sleep nat
  | FindElements pyval
  | SessionQuit

section \<open>The result builder\<close>

text \<open>One entry of the result list, \<^verbatim>\<open>{"value": ..., "index": ...}\<close>.\<close>

record extracted =
  r_value :: pystr
  r_index :: int

text \<open>
  Lines 45 to 64: the lookup of \<^verbatim>\<open>value\<close> inside the \<^verbatim>\<open>try\<close>. \<open>Inl\<close> is an exception
  raised there, which the \<^verbatim>\<open>except Exception\<close> of line 83 catches.
\<close>

definition lookup_value :: "env \<Rightarrow> element \<Rightarrow> pyval \<Rightarrow> pystr \<Rightarrow> exn + pyval" where
  "lookup_value env el attribute method =
     (if method = ascii ''selenium'' then
        (case py_lower (ucd env) attribute of
           Inl e \<Rightarrow> Inl e
         | Inr a \<Rightarrow>
             if a = ascii ''text content'' then
               (case el_text el of Inl e \<Rightarrow> Inl e | Inr t \<Rightarrow> Inr (PyStr (py_strip t)))
             else
               (case el_get_attribute el a of
                  Inl e \<Rightarrow> Inl e
                | Inr v \<Rightarrow> if \<not> py_bool v then el_get_property el a else Inr v))
      else
        (case py_lower (ucd env) attribute of
           Inl e \<Rightarrow> Inl e
         | Inr a \<Rightarrow>
             if a = ascii ''text content'' then
               (case el_get_text el of Inl e \<Rightarrow> Inl e | Inr t \<Rightarrow> Inr (PyStr t))
             else
               (case el_get el a of
                  Inl e \<Rightarrow> Inl e
                | Inr v \<Rightarrow>
                    (case v of
                       PyList xs \<Rightarrow>
                         if a = ascii ''class'' then py_join (ascii '' '') xs else Inr v
                     | _ \<Rightarrow> Inr v))))"

text \<open>The record of lines 70 to 73, and the line that line 74 prints.\<close>

definition value_record :: "env \<Rightarrow> pyval \<Rightarrow> pyval \<Rightarrow> extracted list \<Rightarrow> extracted" where
  "value_record env v attribute results =
     (let value_str = py_strip (py_str (ucd env) v)
      in \<lparr>r_value = (if value_str \<noteq> [] then value_str
                       else ascii ''[Empty '' @ py_str (ucd env) attribute @ ascii '']''),
          r_index = int (length results) + 1\<rparr>)"

definition extracted_line :: "env \<Rightarrow> pyval \<Rightarrow> pyval \<Rightarrow> pystr" where
  "extracted_line env v attribute =
     [9989] @ ascii '' Extracted '' @ py_str (ucd env) attribute @ ascii '': '' @ [39] @
     py_strip (py_str (ucd env) v) @ [39]"

text \<open>The record of lines 77 to 80, and the line that line 81 prints.\<close>

definition missing_record :: "env \<Rightarrow> pyval \<Rightarrow> extracted list \<Rightarrow> extracted" where
  "missing_record env attribute results =
     \<lparr>r_value = ascii ''[No '' @ py_str (ucd env) attribute @ ascii '' attribute]'',
      r_index = int (length results) + 1\<rparr>"

definition missing_line :: "env \<Rightarrow> pyval \<Rightarrow> pystr" where
  "missing_line env attribute =
     [9888, 65039] @ ascii '' No '' @ py_str (ucd env) attribute @ ascii '' attribute found''"

text \<open>The line that line 84 prints, and the record of lines 85 to 88.\<close>

definition error_line :: "env \<Rightarrow> pyval \<Rightarrow> exn \<Rightarrow> pystr" where
  "error_line env attribute e =
     [9888, 65039] @ ascii '' Error extracting '' @ py_str (ucd env) attribute @
     ascii '' from element: '' @ exn_str e"

definition error_record :: "env \<Rightarrow> pyval \<Rightarrow> extracted list \<Rightarrow> extracted" where
  "error_record env attribute results =
     \<lparr>r_value = ascii ''[Error extracting '' @ py_str (ucd env) attribute @ ascii '']'',
      r_index = int (length results) + 1\<rparr>"

text \<open>
  Lines 44 to 81: the \<^verbatim>\<open>try\<close> block of one turn of the loop. The result is the exception
  that leaves the block, if any, and the list \<^verbatim>\<open>results\<close> as the block leaves it: the
  record is appended before its line is printed, so a \<^verbatim>\<open>print\<close> that raises leaves the
  record in the list.
\<close>

definition extract_try ::
  "env \<Rightarrow> element \<Rightarrow> pyval \<Rightarrow> pystr \<Rightarrow> extracted list \<Rightarrow> exn option \<times> extracted list" where
  "extract_try env el attribute method results =
     (case lookup_value env el attribute method of
        Inl e \<Rightarrow> (Some e, results)
      | Inr v \<Rightarrow>
          if v \<noteq> PyNone then
            (py_print env (extracted_line env v attribute),
             results @ [value_record env v attribute results])
          else
            (py_print env (missing_line env attribute),
             results @ [missing_record env attribute results]))"

text \<open>
  One turn of the loop of line 43: the \<^verbatim>\<open>try\<close> block, and for an exception that leaves
  it the handler of lines 83 to 89, which prints before it appends. \<open>Inl\<close> is an exception
  raised by the handler's \<^verbatim>\<open>print\<close>, which nothing in the function catches.
\<close>

definition extract_step ::
  "env \<Rightarrow> element \<Rightarrow> pyval \<Rightarrow> pystr \<Rightarrow> extracted list \<Rightarrow> exn + extracted list" where
  "extract_step env el attribute method results =
     (case extract_try env el attribute method results of
        (None, results') \<Rightarrow> Inr results'
      | (Some e, results') \<Rightarrow>
          (case py_print env (error_line env attribute e) of
             Some e' \<Rightarrow> Inl e'
           | None \<Rightarrow> Inr (results' @ [error_record env attribute results'])))"

text \<open>
  The value of the one record that a turn of the loop appends when none of its prints
  raises: the value of line 71, of line 78 or of line 86.
\<close>

definition resolved_value :: "env \<Rightarrow> element \<Rightarrow> pyval \<Rightarrow> pystr \<Rightarrow> pystr" where
  "resolved_value env el attribute method =
     (case lookup_value env el attribute method of
        Inl e \<Rightarrow> r_value (error_record env attribute [])
      | Inr v \<Rightarrow>
          if v \<noteq> PyNone then r_value (value_record env v attribute [])
          else r_value (missing_record env attribute []))"

fun extract_loop ::
  "env \<Rightarrow> element list \<Rightarrow> pyval \<Rightarrow> pystr \<Rightarrow> extracted list \<Rightarrow> exn + extracted list" where
  "extract_loop env [] attribute method results = Inr results"
| "extract_loop env (el # els) attribute method results =
     (case extract_step env el attribute method results of
        Inl e \<Rightarrow> Inl e
      | Inr results' \<Rightarrow> extract_loop env els attribute method results')"

definition extract_data_from_elements ::
  "env \<Rightarrow> element list \<Rightarrow> pyval \<Rightarrow> pystr \<Rightarrow> exn + extracted list" where
  "extract_data_from_elements env elements attribute method =
     extract_loop env elements attribute method []"

section \<open>Responses\<close>

text \<open>
  The JSON object a handler returns, by the keys the handlers use; \<open>None\<close> is an absent
  key. \<open>method_label\<close> is the key \<^verbatim>\<open>method\<close>; \<open>execution_time\<close> is in hundredths of a
  second.
\<close>

record response =
  success :: bool
  results :: "extracted list option"
  method_label :: "pystr option"
  execution_time :: "int option"
  total_found :: "int option"
  error :: "pystr option"
  csv_content :: "pystr option"
  filename :: "pystr option"

definition failure :: "pystr \<Rightarrow> pystr option \<Rightarrow> response" where
  "failure msg label =
     \<lparr>success = False, results = None, method_label = label, execution_time = None,
      total_found = None, error = Some msg, csv_content = None, filename = None\<rparr>"

definition found :: "extracted list \<Rightarrow> pystr \<Rightarrow> int \<Rightarrow> response" where
  "found rs label t =
     \<lparr>success = True, results = Some rs, method_label = Some label, execution_time = Some t,
      total_found = Some (int (length rs)), error = None, csv_content = None,
      filename = None\<rparr>"

section \<open>The static strategy\<close>

text \<open>The line that line 106 prints.\<close>

definition static_line :: "env \<Rightarrow> pyval \<Rightarrow> pystr" where
  "static_line env url = [127775] @ ascii '' BeautifulSoup scraping: '' @ py_str (ucd env) url"

text \<open>Lines 100 to 133: the \<^verbatim>\<open>try\<close> block of \<^verbatim>\<open>scrape_beautifulsoup\<close>.\<close>

definition scrape_beautifulsoup_try :: "env \<Rightarrow> (exn + response) \<times> event list" where
  "scrape_beautifulsoup_try env =
     (case request_json env of
        Inl e \<Rightarrow> (Inl e, [])
      | Inr data \<Rightarrow>
     (case py_get data (ascii ''url'') PyNone of
        Inl e \<Rightarrow> (Inl e, [])
      | Inr url \<Rightarrow>
     (case py_get data (ascii ''selector'') PyNone of
        Inl e \<Rightarrow> (Inl e, [])
      | Inr selector \<Rightarrow>
     (case py_get data (ascii ''attribute'') (PyStr (ascii ''Text Content'')) of
        Inl e \<Rightarrow> (Inl e, [])
      | Inr attribute \<Rightarrow>
     (case py_print env (static_line env url) of
        Some e \<Rightarrow> (Inl e, [])
      | None \<Rightarrow>
     (case requests_get env url of
        Inl e \<Rightarrow> (Inl e, [HttpGet url])
      | Inr resp \<Rightarrow>
     (case raise_for_status resp of
        Some e \<Rightarrow> (Inl e, [HttpGet url])
      | None \<Rightarrow>
     (case html_parser env (resp_text resp) of
        Inl e \<Rightarrow> (Inl e, [HttpGet url])
      | Inr soup_select \<Rightarrow>
     (case (if py_bool selector then soup_select selector else Inr []) of
        Inl e \<Rightarrow> (Inl e, [HttpGet url])
      | Inr elements \<Rightarrow>
     (case extract_data_from_elements env elements attribute (ascii ''beautifulsoup'') of
        Inl e \<Rightarrow> (Inl e, [HttpGet url])
      | Inr rs \<Rightarrow>
          (Inr (found rs (ascii ''Beautiful Soup'') (elapsed_static env)),
           [HttpGet url])))))))))))"

definition scrape_beautifulsoup :: "env \<Rightarrow> response \<times> event list" where
  "scrape_beautifulsoup env =
     (case scrape_beautifulsoup_try env of
        (Inr r, evs) \<Rightarrow> (r, evs)
      | (Inl e, evs) \<Rightarrow>
          if is_RequestException e then
            (failure (ascii ''Network error: '' @ exn_str e) (Some (ascii ''Beautiful Soup'')),
             evs)
          else (failure (exn_str e) (Some (ascii ''Beautiful Soup'')), evs))"

section \<open>The rendered strategy\<close>

definition chrome_options :: "pystr list" where
  "chrome_options =
     map ascii
       [''--headless=new'', ''--disable-gpu'', ''--no-sandbox'', ''--disable-dev-shm-usage'',
        ''--disable-extensions'', ''--disable-images'', ''--disable-javascript'',
        ''--window-size=1920,1080'',
        ''--user-agent=Mozilla/5.0 (Windows NT 10.0; Win64; x64) AppleWebKit/537.36'']"

definition setup_chrome_driver :: "env \<Rightarrow> exn + driver" where
  "setup_chrome_driver env =
     (case driver_install env of
        Inl e \<Rightarrow> Inl e
      | Inr path \<Rightarrow> webdriver_Chrome env path chrome_options)"

text \<open>The lines that lines 159 and 171 print.\<close>

definition rendered_line :: "env \<Rightarrow> pyval \<Rightarrow> pystr" where
  "rendered_line env url = [129302] @ ascii '' Selenium scraping: '' @ py_str (ucd env) url"

definition timeout_line :: pystr where
  "timeout_line = [9888, 65039] @ ascii '' Timeout waiting for elements, proceeding anyway...''"

text \<open>
  Lines 166 to 171: the wait, with its own handler for a timeout. \<open>Some\<close> is an exception
  that leaves the statement: one of the wait that is not a timeout, or one of the
  handler's \<^verbatim>\<open>print\<close>.
\<close>

definition wait_for_elements :: "env \<Rightarrow> driver \<Rightarrow> pyval \<Rightarrow> pyval \<Rightarrow> exn option" where
  "wait_for_elements env d wait_time selector =
     (case drv_wait_until d wait_time selector of
        None \<Rightarrow> None
      | Some e \<Rightarrow> if is_TimeoutException e then py_print env timeout_line else Some e)"

text \<open>
  Lines 152 to 187: the \<^verbatim>\<open>try\<close> block of \<^verbatim>\<open>scrape_selenium\<close>. The second component
  is the variable \<^verbatim>\<open>driver\<close> when the block is left.
\<close>

definition scrape_selenium_try :: "env \<Rightarrow> (exn + response) \<times> driver option \<times> event list" where
  "scrape_selenium_try env =
     (case request_json env of
        Inl e \<Rightarrow> (Inl e, None, [])
      | Inr data \<Rightarrow>
     (case py_get data (ascii ''url'') PyNone of
        Inl e \<Rightarrow> (Inl e, None, [])
      | Inr url \<Rightarrow>
     (case py_get data (ascii ''selector'') PyNone of
        Inl e \<Rightarrow> (Inl e, None, [])
      | Inr selector \<Rightarrow>
     (case py_get data (ascii ''attribute'') (PyStr (ascii ''Text Content'')) of
        Inl e \<Rightarrow> (Inl e, None, [])
      | Inr attribute \<Rightarrow>
     (case py_get data (ascii ''wait_time'') (PyInt 10) of
        Inl e \<Rightarrow> (Inl e, None, [])
      | Inr wait_time \<Rightarrow>
     (case py_print env (rendered_line env url) of
        Some e \<Rightarrow> (Inl e, None, [])
      | None \<Rightarrow>
     (case setup_chrome_driver env of
        Inl e \<Rightarrow> (Inl e, None, [DriverSetup])
      | Inr d \<Rightarrow>
     (case drv_get d url of
        Some e \<Rightarrow> (Inl e, Some d, [DriverSetup, SessionStart, Navigate url])
      | None \<Rightarrow>
     (case wait_for_elements env d wait_time selector of
        Some e \<Rightarrow> (Inl e, Some d, [DriverSetup, SessionStart, Navigate url, Wait selector])
      | None \<Rightarrow>
     (case drv_find_elements d selector of
        Inl e \<Rightarrow>
          (Inl e, Some d,
           [DriverSetup, SessionStart, Navigate url, Wait selector, Sleep 2,
            FindElements selector])
      | Inr selenium_elements \<Rightarrow>
     (case extract_data_from_elements env selenium_elements attribute (ascii ''selenium'') of
        Inl e \<Rightarrow>
          (Inl e, Some d,
           [DriverSetup, SessionStart, Navigate url, Wait selector, Sleep 2,
            FindElements selector])
      | Inr rs \<Rightarrow>
          (Inr (found rs (ascii ''Selenium'') (elapsed_rendered env)),
           Some d,
           [DriverSetup, SessionStart, Navigate url, Wait selector, Sleep 2,
            FindElements selector]))))))))))))"

text \<open>Lines 189 to 203: the handlers, then the \<^verbatim>\<open>finally\<close> clause.\<close>

definition scrape_selenium :: "env \<Rightarrow> response \<times> event list" where
  "scrape_selenium env =
     (case scrape_selenium_try env of
        (outcome, drv, evs) \<Rightarrow>
          ((case outcome of
              Inr r \<Rightarrow> r
            | Inl e \<Rightarrow>
                if is_WebDriverException e then
                  failure (ascii ''WebDriver error: '' @ exn_str e) (Some (ascii ''Selenium''))
                else failure (exn_str e) (Some (ascii ''Selenium''))),
           evs @ (case drv of None \<Rightarrow> [] | Some d \<Rightarrow> [SessionQuit])))"

section \<open>The fallback orchestrator\<close>

text \<open>The lines that lines 210 and 220 print.\<close>

definition auto_line :: "env \<Rightarrow> pyval \<Rightarrow> pystr" where
  "auto_line env url = [128260] @ ascii '' Auto scraping: '' @ py_str (ucd env) url"

definition fallback_line :: pystr where
  "fallback_line = [9888, 65039] @ ascii '' Beautiful Soup found no results, trying Selenium...''"

text \<open>
  Lines 208 to 234. Every exception raised in the \<^verbatim>\<open>try\<close> block, by the read of the body
  or by a \<^verbatim>\<open>print\<close>, ends in the handler of line 229.
\<close>

definition scrape_auto :: "env \<Rightarrow> response \<times> event list" where
  "scrape_auto env =
     (case request_json env of
        Inl e \<Rightarrow> (failure (exn_str e) (Some (ascii ''Auto'')), [])
      | Inr data \<Rightarrow>
     (case py_get data (ascii ''url'') PyNone of
        Inl e \<Rightarrow> (failure (exn_str e) (Some (ascii ''Auto'')), [])
      | Inr url \<Rightarrow>
     (case py_print env (auto_line env url) of
        Some e \<Rightarrow> (failure (exn_str e) (Some (ascii ''Auto'')), [])
      | None \<Rightarrow>
     (case scrape_beautifulsoup env of
        (bs_data, evs1) \<Rightarrow>
          if success bs_data \<and>
             (case total_found bs_data of None \<Rightarrow> 0 | Some n \<Rightarrow> n) > 0
          then (bs_data\<lparr>method_label := Some (ascii ''Beautiful Soup (Auto)'')\<rparr>, evs1)
          else
     (case py_print env fallback_line of
        Some e \<Rightarrow> (failure (exn_str e) (Some (ascii ''Auto'')), evs1)
      | None \<Rightarrow>
     (case scrape_selenium env of
        (selenium_data, evs2) \<Rightarrow>
          (selenium_data\<lparr>method_label := Some (ascii ''Selenium (Auto Fallback)'')\<rparr>,
           evs1 @ evs2)))))))"

section \<open>The export formatter\<close>

text \<open>
  \<^verbatim>\<open>csv.writer(output).writerow(row)\<close> in the default dialect: \<^verbatim>\<open>None\<close> is written
  as the empty field, any other value as its \<^verbatim>\<open>str\<close>; a field holding a comma, a double
  quote, a carriage return or a newline is put in double quotes with its double quotes
  doubled; the row ends with carriage return and newline. The rows written here have at
  least two fields, so the writer's quoting of a lone empty field does not arise.
\<close>

definition csv_special :: "nat \<Rightarrow> bool" where
  "csv_special c = (c \<in> set [44, 34, 13, 10])"

definition csv_field :: "unicode_db \<Rightarrow> pyval \<Rightarrow> pystr" where
  "csv_field db v =
     (let s = (case v of PyNone \<Rightarrow> [] | _ \<Rightarrow> py_str db v)
      in if list_ex csv_special s
         then 34 # concat (map (\<lambda>c. if c = 34 then [c, c] else [c]) s) @ [34]
         else s)"

definition csv_writerow :: "unicode_db \<Rightarrow> pyval list \<Rightarrow> pystr" where
  "csv_writerow db row = str_join (ascii '','') (map (csv_field db) row) @ [13, 10]"

text \<open>What a \<^verbatim>\<open>for\<close> loop iterates over.\<close>

fun py_iter :: "pyval \<Rightarrow> exn + pyval list" where
  "py_iter (PyList xs) = Inr xs"
| "py_iter (PyStr s) = Inr (map (\<lambda>c. PyStr [c]) s)"
| "py_iter (PyDict kvs) = Inr (map (\<lambda>kv. PyStr (fst kv)) kvs)"
| "py_iter v =
     Inl (Exn TypeError ([39] @ type_name v @ [39] @ ascii '' object is not iterable''))"

text \<open>Lines 277 to 285: the header row.\<close>

definition csv_headers :: "pyval \<Rightarrow> exn + pyval list" where
  "csv_headers metadata =
     (case py_get metadata (ascii ''url'') PyNone of Inl e \<Rightarrow> Inl e | Inr u \<Rightarrow>
     (case py_get metadata (ascii ''selector'') PyNone of Inl e \<Rightarrow> Inl e | Inr s \<Rightarrow>
     (case py_get metadata (ascii ''attribute'') PyNone of Inl e \<Rightarrow> Inl e | Inr a \<Rightarrow>
     (case py_get metadata (ascii ''method'') PyNone of Inl e \<Rightarrow> Inl e | Inr m \<Rightarrow>
        Inr ([PyStr (ascii ''Index''), PyStr (ascii ''Value'')] @
             (if py_bool u then [PyStr (ascii ''Source URL'')] else []) @
             (if py_bool s then [PyStr (ascii ''CSS Selector'')] else []) @
             (if py_bool a then [PyStr (ascii ''Attribute'')] else []) @
             (if py_bool m then [PyStr (ascii ''Method'')] else []))))))"

text \<open>Lines 292 to 299: the metadata values that every data row repeats.\<close>

definition metadata_values :: "pyval \<Rightarrow> exn + pyval list" where
  "metadata_values metadata =
     (case py_get metadata (ascii ''url'') PyNone of Inl e \<Rightarrow> Inl e | Inr u \<Rightarrow>
     (case py_get metadata (ascii ''selector'') PyNone of Inl e \<Rightarrow> Inl e | Inr s \<Rightarrow>
     (case py_get metadata (ascii ''attribute'') PyNone of Inl e \<Rightarrow> Inl e | Inr a \<Rightarrow>
     (case py_get metadata (ascii ''method'') PyNone of Inl e \<Rightarrow> Inl e | Inr m \<Rightarrow>
        Inr ((if py_bool u then [u] else []) @
             (if py_bool s then [s] else []) @
             (if py_bool a then [a] else []) @
             (if py_bool m then [m] else []))))))"

text \<open>Lines 291 to 300: one data row, for the position \<open>i\<close> that \<^verbatim>\<open>enumerate\<close> gives.\<close>

definition csv_row :: "pyval \<Rightarrow> int \<Rightarrow> pyval \<Rightarrow> exn + pyval list" where
  "csv_row metadata i item =
     (case py_get item (ascii ''value'') (PyStr []) of
        Inl e \<Rightarrow> Inl e
      | Inr v \<Rightarrow>
          (case metadata_values metadata of
             Inl e \<Rightarrow> Inl e
           | Inr cols \<Rightarrow> Inr ([PyInt (i + 1), v] @ cols)))"

text \<open>The loop of line 290; \<open>Inl\<close> is the exception that leaves it.\<close>

fun csv_rows :: "pyval \<Rightarrow> int \<Rightarrow> pyval list \<Rightarrow> exn + pyval list list" where
  "csv_rows metadata i [] = Inr []"
| "csv_rows metadata i (item # items) =
     (case csv_row metadata i item of
        Inl e \<Rightarrow> Inl e
      | Inr row \<Rightarrow>
          (case csv_rows metadata (i + 1) items of
             Inl e \<Rightarrow> Inl e
           | Inr rows \<Rightarrow> Inr (row # rows)))"

definition export_csv_try :: "env \<Rightarrow> exn + response" where
  "export_csv_try env =
     (case request_json env of
        Inl e \<Rightarrow> Inl e
      | Inr data \<Rightarrow>
     (case py_get data (ascii ''results'') (PyList []) of
        Inl e \<Rightarrow> Inl e
      | Inr rs \<Rightarrow>
     (case py_get data (ascii ''metadata'') (PyDict []) of
        Inl e \<Rightarrow> Inl e
      | Inr metadata \<Rightarrow>
          if \<not> py_bool rs then Inr (failure (ascii ''No data to export'') None)
          else
     (case csv_headers metadata of
        Inl e \<Rightarrow> Inl e
      | Inr headers \<Rightarrow>
     (case py_iter rs of
        Inl e \<Rightarrow> Inl e
      | Inr items \<Rightarrow>
     (case csv_rows metadata 0 items of
        Inl e \<Rightarrow> Inl e
      | Inr rows \<Rightarrow>
          Inr \<lparr>success = True, results = None, method_label = None, execution_time = None,
               total_found = None, error = None,
               csv_content =
                 Some (csv_writerow (ucd env) headers @
                       concat (map (csv_writerow (ucd env)) rows)),
               filename =
                 Some (ascii ''web_scraper_results_'' @ str_int (now env) @
                       ascii ''.csv'')\<rparr>))))))"

definition export_csv :: "env \<Rightarrow> response" where
  "export_csv env =
     (case export_csv_try env of
        Inr r \<Rightarrow> r
      | Inl e \<Rightarrow> failure (exn_str e) None)"

section \<open>Example inputs\<close>

text \<open>
  A Beautiful Soup tag with a text and an attribute dictionary, a Selenium element with a
  text, attributes and properties, and a Selenium element whose node has left the
  document, so that every accessor raises.
\<close>

definition example_tag :: "pystr \<Rightarrow> (pystr \<times> pyval) list \<Rightarrow> element" where
  "example_tag t attrs =
     \<lparr>el_text = Inr t,
      el_get_attribute = (\<lambda>n. Inl (Exn TypeError (ascii ''object is not callable''))),
      el_get_property = (\<lambda>n. Inl (Exn TypeError (ascii ''object is not callable''))),
      el_get_text = Inr (py_strip t),
      el_get = (\<lambda>n. Inr (case map_of attrs n of None \<Rightarrow> PyNone | Some v \<Rightarrow> v))\<rparr>"

definition example_web_element ::
  "pystr \<Rightarrow> (pystr \<times> pyval) list \<Rightarrow> (pystr \<times> pyval) list \<Rightarrow> element" where
  "example_web_element t attrs props =
     \<lparr>el_text = Inr t,
      el_get_attribute = (\<lambda>n. Inr (case map_of attrs n of None \<Rightarrow> PyNone | Some v \<Rightarrow> v)),
      el_get_property = (\<lambda>n. Inr (case map_of props n of None \<Rightarrow> PyNone | Some v \<Rightarrow> v)),
      el_get_text =
        Inl (Exn AttributeError (ascii ''WebElement object has no attribute get_text'')),
      el_get =
        (\<lambda>n. Inl (Exn AttributeError (ascii ''WebElement object has no attribute get'')))\<rparr>"

definition stale_element :: element where
  "stale_element =
     \<lparr>el_text = Inl (Exn WebDriverException (ascii ''stale element reference'')),
      el_get_attribute =
        (\<lambda>n. Inl (Exn WebDriverException (ascii ''stale element reference''))),
      el_get_property =
        (\<lambda>n. Inl (Exn WebDriverException (ascii ''stale element reference''))),
      el_get_text = Inl (Exn WebDriverException (ascii ''stale element reference'')),
      el_get = (\<lambda>n. Inl (Exn WebDriverException (ascii ''stale element reference'')))\<rparr>"

text \<open>
  A Unicode database that is right on the code points the examples use: the one text that
  is not ASCII is a lone surrogate, which has no lower case and is not printable.
\<close>

definition example_db :: unicode_db where
  "example_db = \<lparr>ucd_lower = (\<lambda>s. s), ucd_printable = (\<lambda>c. \<not> is_surrogate c)\<rparr>"

text \<open>
  Requests and environments: a page that is fetched with status 200, a driver by what its
  wait and its query give, and an environment with a strict UTF-8 standard output, put
  together from the decoded body, the outcome of the HTTP request, the elements the static
  query matches and the outcome of starting the browser.
\<close>

definition example_body :: "pystr \<Rightarrow> pystr \<Rightarrow> pyval" where
  "example_body selector attribute =
     PyDict [(ascii ''url'', PyStr (ascii ''https://example.com'')),
             (ascii ''selector'', PyStr selector),
             (ascii ''attribute'', PyStr attribute)]"

definition example_page :: http_response where
  "example_page =
     \<lparr>status_code = 200, reason = ascii ''OK'', resp_url = ascii ''https://example.com'',
      resp_text = ascii ''<h1>Hello</h1>''\<rparr>"

definition example_driver :: "exn option \<Rightarrow> exn + element list \<Rightarrow> driver" where
  "example_driver waited queried =
     \<lparr>drv_get = (\<lambda>url. None),
      drv_wait_until = (\<lambda>wait_time selector. waited),
      drv_find_elements = (\<lambda>selector. queried)\<rparr>"

definition example_env ::
  "exn + pyval \<Rightarrow> exn + http_response \<Rightarrow> element list \<Rightarrow> exn + driver \<Rightarrow> env" where
  "example_env body page static_elements session =
     \<lparr>request_json = body,
      stdout_write = utf8_strict,
      ucd = example_db,
      requests_get = (\<lambda>url. page),
      html_parser = (\<lambda>markup. Inr (\<lambda>selector. Inr static_elements)),
      driver_install = Inr (ascii ''/usr/bin/chromedriver''),
      webdriver_Chrome = (\<lambda>path options. session),
      elapsed_static = 12,
      elapsed_rendered = 250,
      now = 1700\<rparr>"

text \<open>An environment for the result builder alone.\<close>

definition builder_env :: env where
  "builder_env =
     example_env (Inr PyNone) (Inr example_page) [] (Inr (example_driver None (Inr [])))"

text \<open>An export request: two records whose stored index fields are both 7.\<close>

definition example_export_body :: "pyval list \<Rightarrow> pyval \<Rightarrow> pyval" where
  "example_export_body rs metadata =
     PyDict [(ascii ''results'', PyList rs), (ascii ''metadata'', metadata)]"

definition example_metadata :: "(pystr \<times> pyval) list" where
  "example_metadata = [(ascii ''url'', PyStr (ascii ''https://example.com''))]"

definition example_records :: "(pystr \<times> pyval) list list" where
  "example_records =
     [[(ascii ''value'', PyStr (ascii ''a,b'')), (ascii ''index'', PyInt 7)],
      [(ascii ''value'', PyStr (ascii ''c'')), (ascii ''index'', PyInt 7)]]"

section \<open>Properties of the string functions\<close>

text \<open>
  \<open>py_strip\<close> removes a run of whitespace at each end and nothing else: the input is the
  result between two runs of whitespace, and a result that is not empty neither starts
  nor ends with whitespace. \<open>ascii\<close> is injective.
\<close>

lemma py_strip_decompose:
  "s = takeWhile is_space s @ py_strip s @ rev (takeWhile is_space (rev (dropWhile is_space s)))"
proof -
  let ?d = "dropWhile is_space s"
  have "takeWhile is_space (rev ?d) @ dropWhile is_space (rev ?d) = rev ?d"
    by (rule takeWhile_dropWhile_id)
  then have "?d = rev (dropWhile is_space (rev ?d)) @ rev (takeWhile is_space (rev ?d))"
    by (metis rev_append rev_rev_ident)
  then have "?d = py_strip s @ rev (takeWhile is_space (rev ?d))"
    unfolding py_strip_def .
  moreover have "s = takeWhile is_space s @ ?d"
    by simp
  ultimately show ?thesis by simp
qed

lemma py_strip_surroundings:
  "(\<forall>c \<in> set (takeWhile is_space s). is_space c) \<and>
   (\<forall>c \<in> set (rev (takeWhile is_space (rev (dropWhile is_space s)))). is_space c)"
  by (auto dest: set_takeWhileD)

lemma py_strip_no_outer_space:
  assumes "py_strip s \<noteq> []"
  shows "\<not> is_space (hd (py_strip s)) \<and> \<not> is_space (last (py_strip s))"
proof -
  let ?d = "dropWhile is_space s"
  let ?t = "dropWhile is_space (rev ?d)"
  have t: "?t \<noteq> []" using assms by (simp add: py_strip_def)
  have "\<not> is_space (hd ?t)" using t by (rule hd_dropWhile)
  then have l: "\<not> is_space (last (py_strip s))"
    using t by (simp add: py_strip_def last_rev)
  have d: "?d = py_strip s @ rev (takeWhile is_space (rev ?d))"
    using py_strip_decompose [of s] by (metis append_eq_append_conv takeWhile_dropWhile_id)
  have "?d \<noteq> []" using d assms by (metis append_is_Nil_conv)
  then have "\<not> is_space (hd ?d)" by (rule hd_dropWhile)
  moreover have "hd ?d = hd (py_strip s)"
    using assms by (subst d) simp
  ultimately show ?thesis using l by simp
qed

lemma ascii_eq_iff: "ascii s = ascii t \<longleftrightarrow> s = t"
  by (simp add: ascii_def inj_map_eq_map inj_on_def)

text \<open>The definitions that the evaluation of an example unfolds.\<close>

lemmas eval_defs =
  ascii_def builder_env_def example_env_def example_db_def example_tag_def
  example_web_element_def stale_element_def example_body_def example_page_def
  example_driver_def utf8_strict_def is_surrogate_def hex4_def hex2_def hex_digit_def
  py_print_def extract_data_from_elements_def extract_step_def extract_try_def
  lookup_value_def str_lower_def lower_ascii_def py_strip_def is_space_def
  value_record_def missing_record_def error_record_def extracted_line_def missing_line_def
  error_line_def str_nat.simps Let_def
  scrape_beautifulsoup_def scrape_beautifulsoup_try_def static_line_def raise_for_status_def
  failure_def found_def

lemmas handler_defs =
  scrape_selenium_def scrape_selenium_try_def setup_chrome_driver_def wait_for_elements_def
  rendered_line_def timeout_line_def scrape_auto_def auto_line_def fallback_line_def

lemmas export_defs =
  export_csv_def export_csv_try_def csv_headers_def metadata_values_def csv_row_def
  csv_writerow_def csv_field_def csv_special_def example_export_body_def
  example_metadata_def example_records_def str_int_def no_attribute_def

section \<open>Properties of the result builder\<close>

text \<open>
  On a standard output that takes every line, the builder returns one record for each
  element, with the indices \<open>1, ..., N\<close> and the resolved values in the order of the
  elements, and a resolved value is never empty. On any standard output, when the builder
  returns at all, each element has given one record or two, the indices are consecutive
  from 1, and no value is empty.
\<close>

lemma resolved_value_not_empty: "resolved_value env el a m \<noteq> []"
  by (simp add: resolved_value_def value_record_def missing_record_def error_record_def
      Let_def ascii_def split: sum.split)

lemma extract_step_accepting:
  assumes "\<And>line. stdout_write env line = None"
  shows "extract_step env el a m rs =
           Inr (rs @ [\<lparr>r_value = resolved_value env el a m, r_index = int (length rs) + 1\<rparr>])"
  using assms
  by (simp add: extract_step_def extract_try_def py_print_def resolved_value_def
      value_record_def missing_record_def error_record_def Let_def split: sum.split)

lemma extract_loop_accepting:
  assumes "\<And>line. stdout_write env line = None"
  shows "extract_loop env es a m rs =
           Inr (rs @ map (\<lambda>(i, el). \<lparr>r_value = resolved_value env el a m,
                                       r_index = int (length rs) + int i + 1\<rparr>)
                       (enumerate 0 es))"
proof (induction es arbitrary: rs)
  case Nil
  show ?case by simp
next
  case (Cons el es)
  have "enumerate (Suc 0) es = map (apfst Suc) (enumerate 0 es)"
    by (rule enumerate_Suc_eq)
  then show ?case
    using Cons.IH [of "rs @ [\<lparr>r_value = resolved_value env el a m,
                               r_index = int (length rs) + 1\<rparr>]"]
    by (simp add: extract_step_accepting [OF assms] case_prod_unfold comp_def
        add.commute add.left_commute)
qed

lemma builder_accepting:
  assumes "\<And>line. stdout_write env line = None"
  shows "extract_data_from_elements env es a m =
           Inr (map (\<lambda>(i, el). \<lparr>r_value = resolved_value env el a m, r_index = int i + 1\<rparr>)
                  (enumerate 0 es))"
  using extract_loop_accepting [OF assms, of es a m "[]"]
  by (simp add: extract_data_from_elements_def)

lemma extract_try_appends:
  "snd (extract_try env el a m rs) = rs \<or>
   (\<exists>r. snd (extract_try env el a m rs) = rs @ [r] \<and> r_index r = int (length rs) + 1 \<and>
        r_value r = resolved_value env el a m)"
  by (simp add: extract_try_def resolved_value_def value_record_def missing_record_def
      Let_def split: sum.split)

lemma extract_step_shape:
  assumes "extract_step env el a m rs = Inr out"
  shows "\<exists>new. out = rs @ new \<and> (length new = 1 \<or> length new = 2) \<and>
           map r_index new = [int (length rs) + 1 .. int (length rs) + int (length new)] \<and>
           (\<forall>r \<in> set new. r_value r \<noteq> [])"
  using assms
  by (auto simp add: extract_step_def extract_try_def value_record_def missing_record_def
      error_record_def Let_def ascii_def upto_rec1 split: sum.splits option.splits if_splits)

lemma upto_append:
  "1 \<le> p \<Longrightarrow> 0 \<le> q \<Longrightarrow>
     [a + 1 .. a + p] @ [a + p + 1 .. a + p + q] = [a + 1 .. a + p + (q::int)]"
  by (rule upto_split2 [symmetric]) auto

lemma extract_loop_shape:
  assumes "extract_loop env es a m rs = Inr out"
  shows "\<exists>new. out = rs @ new \<and> length es \<le> length new \<and> length new \<le> 2 * length es \<and>
           map r_index new = [int (length rs) + 1 .. int (length rs) + int (length new)] \<and>
           (\<forall>r \<in> set new. r_value r \<noteq> [])"
  using assms
proof (induction es arbitrary: rs)
  case Nil
  then show ?case by simp
next
  case (Cons el es)
  from Cons.prems obtain mid where
    step: "extract_step env el a m rs = Inr mid" and rest: "extract_loop env es a m mid = Inr out"
    by (auto split: sum.splits)
  from extract_step_shape [OF step] obtain n1 where
    n1: "mid = rs @ n1" "length n1 = 1 \<or> length n1 = 2"
      "map r_index n1 = [int (length rs) + 1 .. int (length rs) + int (length n1)]"
      "\<forall>r \<in> set n1. r_value r \<noteq> []"
    by blast
  from Cons.IH [OF rest] obtain n2 where
    n2: "out = mid @ n2" "length es \<le> length n2" "length n2 \<le> 2 * length es"
      "map r_index n2 = [int (length mid) + 1 .. int (length mid) + int (length n2)]"
      "\<forall>r \<in> set n2. r_value r \<noteq> []"
    by blast
  have "map r_index (n1 @ n2) =
        [int (length rs) + 1 .. int (length rs) + int (length n1)] @
        [int (length rs) + int (length n1) + 1 ..
         int (length rs) + int (length n1) + int (length n2)]"
    using n1(1,3) n2(4) by (simp add: add.assoc)
  also have "\<dots> = [int (length rs) + 1 .. int (length rs) + int (length n1) + int (length n2)]"
    using n1(2) by (intro upto_append) auto
  finally have "map r_index (n1 @ n2) =
        [int (length rs) + 1 .. int (length rs) + int (length (n1 @ n2))]"
    by (simp add: add.assoc)
  moreover have "out = rs @ (n1 @ n2)"
    using n1(1) n2(1) by simp
  moreover have "length (el # es) \<le> length (n1 @ n2)" "length (n1 @ n2) \<le> 2 * length (el # es)"
    using n1(2) n2(2,3) by auto
  moreover have "\<forall>r \<in> set (n1 @ n2). r_value r \<noteq> []"
    using n1(4) n2(5) by auto
  ultimately show ?case by blast
qed

text \<open>
  C2. The claim is that \<open>N\<close> elements always give exactly \<open>N\<close> records. The code
  prints inside the \<^verbatim>\<open>try\<close> after it has appended (lines 74 and 81), so on the strict
  UTF-8 standard output: one element whose text is the lone surrogate U+D800 gives two
  records, its value and an error placeholder; and two elements asked for the attribute
  U+D800 give no list at all, because the handler's own \<^verbatim>\<open>print\<close> (line 84) raises too.
\<close>

theorem builder_two_records_for_one_element:
  "extract_data_from_elements builder_env [example_tag [55296] []]
     (PyStr (ascii ''Text Content'')) (ascii ''beautifulsoup'')
   = Inr [\<lparr>r_value = [55296], r_index = 1\<rparr>,
          \<lparr>r_value = ascii ''[Error extracting Text Content]'', r_index = 2\<rparr>] \<and>
   extract_data_from_elements builder_env
     [example_tag (ascii ''a'') [], example_tag (ascii ''b'') []]
     (PyStr [55296]) (ascii ''beautifulsoup'')
   = Inl (Exn UnicodeEncodeError
            ([39] @ ascii ''utf-8'' @ [39] @ ascii '' codec can'' @ [39] @
             ascii ''t encode character '' @ [39, 92] @ ascii ''ud800'' @ [39] @
             ascii '' in position 20: surrogates not allowed''))"
  by (simp add: eval_defs)

text \<open>
  C3. The claim is that an element without the requested attribute gives exactly the
  placeholder \<open>[No a attribute]\<close>. For the attribute U+D800 on the strict UTF-8 standard
  output the lookup returns \<^verbatim>\<open>None\<close> and the \<^verbatim>\<open>try\<close> block appends that placeholder, but
  its \<^verbatim>\<open>print\<close> of line 81 raises and so does the one of line 84: the builder returns no
  value, and the static handler answers with a failure.
\<close>

theorem resolved_value_lost_to_print_fault:
  "lookup_value builder_env (example_tag (ascii ''x'') []) (PyStr [55296]) (ascii ''beautifulsoup'')
   = Inr PyNone \<and>
   extract_try builder_env (example_tag (ascii ''x'') []) (PyStr [55296])
     (ascii ''beautifulsoup'') []
   = (Some (Exn UnicodeEncodeError
              ([39] @ ascii ''utf-8'' @ [39] @ ascii '' codec can'' @ [39] @
               ascii ''t encode character '' @ [39, 92] @ ascii ''ud800'' @ [39] @
               ascii '' in position 6: surrogates not allowed'')),
      [\<lparr>r_value = ascii ''[No '' @ [55296] @ ascii '' attribute]'', r_index = 1\<rparr>]) \<and>
   fst (scrape_beautifulsoup
          (example_env (Inr (example_body (ascii ''h1'') [55296])) (Inr example_page)
             [example_tag (ascii ''x'') []] (Inr (example_driver None (Inr [])))))
   = \<lparr>success = False, results = None, method_label = Some (ascii ''Beautiful Soup''),
      execution_time = None, total_found = None,
      error = Some ([39] @ ascii ''utf-8'' @ [39] @ ascii '' codec can'' @ [39] @
                    ascii ''t encode character '' @ [39, 92] @ ascii ''ud800'' @ [39] @
                    ascii '' in position 20: surrogates not allowed''),
      csv_content = None, filename = None\<rparr>"
  by (simp add: eval_defs)

text \<open>
  C4. The claim is that a fault in resolving one element is recorded as a placeholder and
  never leaves the builder. For the attribute U+D800 on the strict UTF-8 standard output,
  the lookup on a stale element raises, the handler's \<^verbatim>\<open>print\<close> of line 84 raises before
  the placeholder is appended, and the exception leaves the builder: the element after it
  is never processed.
\<close>

theorem element_fault_leaves_builder:
  "lookup_value builder_env stale_element (PyStr [55296]) (ascii ''selenium'')
   = Inl (Exn WebDriverException (ascii ''stale element reference'')) \<and>
   extract_data_from_elements builder_env
     [stale_element, example_web_element (ascii ''b'') [] []]
     (PyStr [55296]) (ascii ''selenium'')
   = Inl (Exn UnicodeEncodeError
            ([39] @ ascii ''utf-8'' @ [39] @ ascii '' codec can'' @ [39] @
             ascii ''t encode character '' @ [39, 92] @ ascii ''ud800'' @ [39] @
             ascii '' in position 20: surrogates not allowed''))"
  by (simp add: eval_defs)

section \<open>Properties of the static strategy\<close>

lemma static_trace_shape:
  "request_json env = Inr (PyDict kvs) \<Longrightarrow> scrape_beautifulsoup env = (r, t) \<Longrightarrow>
     (t = [] \<or> t = [HttpGet (case map_of kvs (ascii ''url'') of None \<Rightarrow> PyNone | Some v \<Rightarrow> v)]) \<and>
     (success r \<longrightarrow>
        t = [HttpGet (case map_of kvs (ascii ''url'') of None \<Rightarrow> PyNone | Some v \<Rightarrow> v)])"
  by (auto simp add: scrape_beautifulsoup_def scrape_beautifulsoup_try_def failure_def
      split: sum.splits option.splits prod.splits if_splits)

lemma static_total_found:
  "scrape_beautifulsoup env = (r, t) \<Longrightarrow> success r \<Longrightarrow>
     \<exists>rs. results r = Some rs \<and> total_found r = Some (int (length rs))"
  by (auto simp add: scrape_beautifulsoup_def scrape_beautifulsoup_try_def failure_def found_def
      split: sum.splits option.splits prod.splits if_splits)

text \<open>
  C8, as amended. For a request whose body is a JSON object, whose selector is absent or
  empty (any value that counts as false) and whose page is fetched (the line of line 106
  is printed, the HTTP request returns without an error status) and parsed, the query is
  not run: the response is a success result with no results and \<open>total_found\<close> 0.
\<close>

theorem static_empty_selector:
  assumes "request_json env = Inr (PyDict kvs)"
    and "\<not> py_bool (case map_of kvs (ascii ''selector'') of None \<Rightarrow> PyNone | Some v \<Rightarrow> v)"
    and "py_print env
           (static_line env (case map_of kvs (ascii ''url'') of None \<Rightarrow> PyNone | Some v \<Rightarrow> v))
         = None"
    and "requests_get env (case map_of kvs (ascii ''url'') of None \<Rightarrow> PyNone | Some v \<Rightarrow> v)
         = Inr resp"
    and "raise_for_status resp = None"
    and "html_parser env (resp_text resp) = Inr soup_select"
  shows "scrape_beautifulsoup env =
           (\<lparr>success = True, results = Some [], method_label = Some (ascii ''Beautiful Soup''),
             execution_time = Some (elapsed_static env), total_found = Some 0, error = None,
             csv_content = None, filename = None\<rparr>,
            [HttpGet (case map_of kvs (ascii ''url'') of None \<Rightarrow> PyNone | Some v \<Rightarrow> v)])"
  using assms
  by (simp add: scrape_beautifulsoup_def scrape_beautifulsoup_try_def found_def
      extract_data_from_elements_def)

theorem static_empty_selector_witness:
  "\<not> py_bool (PyStr []) \<and>
   py_print
     (example_env (Inr (example_body [] (ascii ''Text Content''))) (Inr example_page)
        [example_tag (ascii ''Hello'') []] (Inr (example_driver None (Inr []))))
     (static_line
        (example_env (Inr (example_body [] (ascii ''Text Content''))) (Inr example_page)
           [example_tag (ascii ''Hello'') []] (Inr (example_driver None (Inr []))))
        (PyStr (ascii ''https://example.com''))) = None \<and>
   raise_for_status example_page = None \<and>
   scrape_beautifulsoup
     (example_env (Inr (example_body [] (ascii ''Text Content''))) (Inr example_page)
        [example_tag (ascii ''Hello'') []] (Inr (example_driver None (Inr []))))
     = (\<lparr>success = True, results = Some [], method_label = Some (ascii ''Beautiful Soup''),
         execution_time = Some 12, total_found = Some 0, error = None,
         csv_content = None, filename = None\<rparr>,
        [HttpGet (PyStr (ascii ''https://example.com''))])"
proof -
  let ?env = "example_env (Inr (example_body [] (ascii ''Text Content''))) (Inr example_page)
                [example_tag (ascii ''Hello'') []] (Inr (example_driver None (Inr [])))"
  let ?kvs = "[(ascii ''url'', PyStr (ascii ''https://example.com'')),
               (ascii ''selector'', PyStr []),
               (ascii ''attribute'', PyStr (ascii ''Text Content''))]"
  have h: "request_json ?env = Inr (PyDict ?kvs)"
    by (simp add: example_env_def example_body_def)
  have s: "\<not> py_bool (case map_of ?kvs (ascii ''selector'') of None \<Rightarrow> PyNone | Some v \<Rightarrow> v)"
    by (simp add: ascii_def)
  have p: "py_print ?env
             (static_line ?env (case map_of ?kvs (ascii ''url'') of None \<Rightarrow> PyNone | Some v \<Rightarrow> v))
           = None"
    by (simp add: eval_defs)
  have g: "requests_get ?env (case map_of ?kvs (ascii ''url'') of None \<Rightarrow> PyNone | Some v \<Rightarrow> v)
           = Inr example_page"
    by (simp add: example_env_def)
  have r: "raise_for_status example_page = None"
    by (simp add: raise_for_status_def example_page_def)
  have q: "html_parser ?env (resp_text example_page)
           = Inr (\<lambda>selector. Inr [example_tag (ascii ''Hello'') []])"
    by (simp add: example_env_def)
  have e: "elapsed_static ?env = 12"
    by (simp add: example_env_def)
  show ?thesis
    using r p static_empty_selector [OF h s p g r q]
    by (simp add: e ascii_eq_iff)
qed

text \<open>
  The claim as stated fails: the page is fetched before the selector is looked at, so an
  empty selector with a failing fetch gives a failure result.
\<close>

theorem static_empty_selector_counterexample:
  "py_get (example_body [] (ascii ''Text Content'')) (ascii ''selector'') PyNone = Inr (PyStr []) \<and>
   scrape_beautifulsoup
     (example_env (Inr (example_body [] (ascii ''Text Content'')))
        (Inl (Exn RequestException (ascii ''connection refused''))) []
        (Inr (example_driver None (Inr []))))
     = (\<lparr>success = False, results = None, method_label = Some (ascii ''Beautiful Soup''),
         execution_time = None, total_found = None,
         error = Some (ascii ''Network error: connection refused''),
         csv_content = None, filename = None\<rparr>,
        [HttpGet (PyStr (ascii ''https://example.com''))])"
  by (simp add: eval_defs)

section \<open>Properties of the rendered strategy\<close>

lemma rendered_trace_shape:
  "scrape_selenium env = (r, t) \<Longrightarrow> count_list t DriverSetup \<le> 1"
  by (auto simp add: scrape_selenium_def scrape_selenium_try_def
      split: sum.splits option.splits prod.splits)

lemma rendered_sessions:
  "scrape_selenium env = (r, t) \<Longrightarrow>
     count_list t SessionQuit = count_list t SessionStart \<and>
     count_list t SessionStart \<le> 1 \<and>
     (SessionStart \<in> set t \<longrightarrow> last t = SessionQuit)"
  by (auto simp add: scrape_selenium_def scrape_selenium_try_def
      split: sum.splits option.splits prod.splits)

lemma rendered_session_started:
  "request_json env = Inr (PyDict kvs) \<Longrightarrow>
   py_print env
     (rendered_line env (case map_of kvs (ascii ''url'') of None \<Rightarrow> PyNone | Some v \<Rightarrow> v)) = None \<Longrightarrow>
   setup_chrome_driver env = Inr d \<Longrightarrow>
   scrape_selenium env = (r, t) \<Longrightarrow> SessionStart \<in> set t"
  by (auto simp add: scrape_selenium_def scrape_selenium_try_def
      split: sum.splits option.splits prod.splits)

text \<open>
  C6. In the effects of one call of \<^verbatim>\<open>scrape_selenium\<close>, whatever the environment does: at
  most one session is started, as many sessions are quit as are started, and when a
  session is started the last effect before the handler returns is its \<^verbatim>\<open>quit\<close>. When the
  body is a JSON object, the line of line 159 is printed and the driver is set up, a
  session is started.
\<close>

theorem session_released_on_every_path:
  "count_list (snd (scrape_selenium env)) SessionQuit =
     count_list (snd (scrape_selenium env)) SessionStart \<and>
   count_list (snd (scrape_selenium env)) SessionStart \<le> 1 \<and>
   (SessionStart \<in> set (snd (scrape_selenium env)) \<longrightarrow>
      last (snd (scrape_selenium env)) = SessionQuit) \<and>
   (request_json env = Inr (PyDict kvs) \<longrightarrow>
    py_print env
      (rendered_line env (case map_of kvs (ascii ''url'') of None \<Rightarrow> PyNone | Some v \<Rightarrow> v)) = None \<longrightarrow>
    setup_chrome_driver env = Inr d \<longrightarrow>
      SessionStart \<in> set (snd (scrape_selenium env)))"
proof -
  obtain r t where rt: "scrape_selenium env = (r, t)"
    by (cases "scrape_selenium env")
  show ?thesis
    using rendered_sessions [OF rt] rendered_session_started [of env kvs d r t] rt by simp
qed

theorem session_released_on_every_path_witness:
  "SessionStart \<in> set (snd (scrape_selenium
      (example_env (Inr (example_body (ascii ''h1'') (ascii ''Text Content''))) (Inr example_page) []
         (Inr (example_driver (Some (Exn TimeoutException (ascii ''timed out'')))
                 (Inl (Exn WebDriverException (ascii ''invalid session id'')))))))) \<and>
   last (snd (scrape_selenium
      (example_env (Inr (example_body (ascii ''h1'') (ascii ''Text Content''))) (Inr example_page) []
         (Inr (example_driver (Some (Exn TimeoutException (ascii ''timed out'')))
                 (Inl (Exn WebDriverException (ascii ''invalid session id'')))))))) = SessionQuit"
proof -
  let ?d = "example_driver (Some (Exn TimeoutException (ascii ''timed out'')))
              (Inl (Exn WebDriverException (ascii ''invalid session id'')))"
  let ?env = "example_env (Inr (example_body (ascii ''h1'') (ascii ''Text Content'')))
                (Inr example_page) [] (Inr ?d)"
  let ?kvs = "[(ascii ''url'', PyStr (ascii ''https://example.com'')),
               (ascii ''selector'', PyStr (ascii ''h1'')),
               (ascii ''attribute'', PyStr (ascii ''Text Content''))]"
  have h: "request_json ?env = Inr (PyDict ?kvs)"
    by (simp add: example_env_def example_body_def)
  have p: "py_print ?env
             (rendered_line ?env (case map_of ?kvs (ascii ''url'') of None \<Rightarrow> PyNone | Some v \<Rightarrow> v))
           = None"
    by (simp add: eval_defs handler_defs)
  have d: "setup_chrome_driver ?env = Inr ?d"
    by (simp add: setup_chrome_driver_def example_env_def)
  show ?thesis
    using session_released_on_every_path [of ?env ?kvs ?d] h p d by simp
qed

text \<open>
  C7, as amended. When the wait for the selector raises a \<^verbatim>\<open>TimeoutException\<close>, the lines
  of lines 159 and 171 are printed, the query of the live document that follows returns
  and the result builder returns a list, the response is a success result built from that
  list, with no error; the session is quit afterwards.
\<close>

theorem rendered_timeout_absorbed:
  assumes "request_json env = Inr (PyDict kvs)"
    and "py_print env
           (rendered_line env (case map_of kvs (ascii ''url'') of None \<Rightarrow> PyNone | Some v \<Rightarrow> v))
         = None"
    and "setup_chrome_driver env = Inr d"
    and "drv_get d (case map_of kvs (ascii ''url'') of None \<Rightarrow> PyNone | Some v \<Rightarrow> v) = None"
    and "drv_wait_until d
           (case map_of kvs (ascii ''wait_time'') of None \<Rightarrow> PyInt 10 | Some v \<Rightarrow> v)
           (case map_of kvs (ascii ''selector'') of None \<Rightarrow> PyNone | Some v \<Rightarrow> v) = Some e"
    and "is_TimeoutException e"
    and "py_print env timeout_line = None"
    and "drv_find_elements d
           (case map_of kvs (ascii ''selector'') of None \<Rightarrow> PyNone | Some v \<Rightarrow> v) = Inr els"
    and "extract_data_from_elements env els
           (case map_of kvs (ascii ''attribute'') of
              None \<Rightarrow> PyStr (ascii ''Text Content'') | Some v \<Rightarrow> v)
           (ascii ''selenium'') = Inr rs"
  shows "scrape_selenium env =
           (found rs (ascii ''Selenium'') (elapsed_rendered env),
            [DriverSetup, SessionStart,
             Navigate (case map_of kvs (ascii ''url'') of None \<Rightarrow> PyNone | Some v \<Rightarrow> v),
             Wait (case map_of kvs (ascii ''selector'') of None \<Rightarrow> PyNone | Some v \<Rightarrow> v),
             Sleep 2,
             FindElements (case map_of kvs (ascii ''selector'') of None \<Rightarrow> PyNone | Some v \<Rightarrow> v),
             SessionQuit]) \<and>
         success (fst (scrape_selenium env)) \<and> error (fst (scrape_selenium env)) = None"
  using assms
  by (simp add: scrape_selenium_def scrape_selenium_try_def wait_for_elements_def found_def)

theorem rendered_timeout_absorbed_witness:
  "is_TimeoutException (Exn TimeoutException (ascii ''timed out'')) \<and>
   extract_data_from_elements
     (example_env (Inr (example_body (ascii ''h1'') (ascii ''Text Content''))) (Inr example_page) []
        (Inr (example_driver (Some (Exn TimeoutException (ascii ''timed out'')))
                (Inr [example_web_element (ascii '' Hello '') [] []]))))
     [example_web_element (ascii '' Hello '') [] []] (PyStr (ascii ''Text Content''))
     (ascii ''selenium'')
     = Inr [\<lparr>r_value = ascii ''Hello'', r_index = 1\<rparr>] \<and>
   scrape_selenium
     (example_env (Inr (example_body (ascii ''h1'') (ascii ''Text Content''))) (Inr example_page) []
        (Inr (example_driver (Some (Exn TimeoutException (ascii ''timed out'')))
                (Inr [example_web_element (ascii '' Hello '') [] []]))))
     = (\<lparr>success = True, results = Some [\<lparr>r_value = ascii ''Hello'', r_index = 1\<rparr>],
         method_label = Some (ascii ''Selenium''), execution_time = Some 250,
         total_found = Some 1, error = None, csv_content = None, filename = None\<rparr>,
        [DriverSetup, SessionStart, Navigate (PyStr (ascii ''https://example.com'')),
         Wait (PyStr (ascii ''h1'')), Sleep 2, FindElements (PyStr (ascii ''h1'')), SessionQuit])"
proof -
  let ?els = "[example_web_element (ascii '' Hello '') [] []]"
  let ?d = "example_driver (Some (Exn TimeoutException (ascii ''timed out''))) (Inr ?els)"
  let ?env = "example_env (Inr (example_body (ascii ''h1'') (ascii ''Text Content'')))
                (Inr example_page) [] (Inr ?d)"
  let ?kvs = "[(ascii ''url'', PyStr (ascii ''https://example.com'')),
               (ascii ''selector'', PyStr (ascii ''h1'')),
               (ascii ''attribute'', PyStr (ascii ''Text Content''))]"
  have h: "request_json ?env = Inr (PyDict ?kvs)"
    by (simp add: example_env_def example_body_def)
  have p: "py_print ?env
             (rendered_line ?env (case map_of ?kvs (ascii ''url'') of None \<Rightarrow> PyNone | Some v \<Rightarrow> v))
           = None"
    by (simp add: eval_defs handler_defs)
  have d: "setup_chrome_driver ?env = Inr ?d"
    by (simp add: setup_chrome_driver_def example_env_def)
  have g: "drv_get ?d (case map_of ?kvs (ascii ''url'') of None \<Rightarrow> PyNone | Some v \<Rightarrow> v) = None"
    by (simp add: example_driver_def)
  have w: "drv_wait_until ?d
             (case map_of ?kvs (ascii ''wait_time'') of None \<Rightarrow> PyInt 10 | Some v \<Rightarrow> v)
             (case map_of ?kvs (ascii ''selector'') of None \<Rightarrow> PyNone | Some v \<Rightarrow> v)
           = Some (Exn TimeoutException (ascii ''timed out''))"
    by (simp add: example_driver_def)
  have t: "is_TimeoutException (Exn TimeoutException (ascii ''timed out''))"
    by simp
  have l: "py_print ?env timeout_line = None"
    by (simp add: eval_defs handler_defs)
  have f: "drv_find_elements ?d
             (case map_of ?kvs (ascii ''selector'') of None \<Rightarrow> PyNone | Some v \<Rightarrow> v) = Inr ?els"
    by (simp add: example_driver_def)
  have x: "extract_data_from_elements ?env ?els
             (case map_of ?kvs (ascii ''attribute'') of
                None \<Rightarrow> PyStr (ascii ''Text Content'') | Some v \<Rightarrow> v)
             (ascii ''selenium'') = Inr [\<lparr>r_value = ascii ''Hello'', r_index = 1\<rparr>]"
    by (simp add: eval_defs)
  have x': "extract_data_from_elements ?env ?els (PyStr (ascii ''Text Content''))
             (ascii ''selenium'') = Inr [\<lparr>r_value = ascii ''Hello'', r_index = 1\<rparr>]"
    by (simp add: eval_defs)
  have e: "elapsed_rendered ?env = 250"
    by (simp add: example_env_def)
  show ?thesis
    using t x' rendered_timeout_absorbed [OF h p d g w t l f x]
    by (simp add: found_def e ascii_eq_iff)
qed

text \<open>
  The claim as stated fails: after a wait that timed out, the query of line 176 can still
  raise, and the response is then a failure result.
\<close>

theorem rendered_timeout_absorbed_counterexample:
  "scrape_selenium
     (example_env (Inr (example_body (ascii ''h1'') (ascii ''Text Content''))) (Inr example_page) []
        (Inr (example_driver (Some (Exn TimeoutException (ascii ''timed out'')))
                (Inl (Exn WebDriverException (ascii ''invalid session id''))))))
     = (\<lparr>success = False, results = None, method_label = Some (ascii ''Selenium''),
         execution_time = None, total_found = None,
         error = Some (ascii ''WebDriver error: invalid session id''),
         csv_content = None, filename = None\<rparr>,
        [DriverSetup, SessionStart, Navigate (PyStr (ascii ''https://example.com'')),
         Wait (PyStr (ascii ''h1'')), Sleep 2, FindElements (PyStr (ascii ''h1'')), SessionQuit])"
  by (simp add: eval_defs handler_defs)

section \<open>Properties of the fallback orchestrator\<close>

text \<open>
  C1, as amended. For a request whose body is a JSON object and for which the line of line
  210 is printed, the orchestrator first runs the static strategy, whose only effect is at
  most one HTTP request. If that succeeds with at least one result, its response is
  returned under the label \<open>Beautiful Soup (Auto)\<close> and nothing of the rendered strategy
  happens. Otherwise, when the line of line 220 is printed, the rendered strategy runs
  after it, once (its effects hold at most one driver set-up), and its response is returned
  under the label \<open>Selenium (Auto Fallback)\<close>, whatever its success flag and result count.
\<close>

theorem auto_fallback_policy:
  assumes "request_json env = Inr (PyDict kvs)"
    and "py_print env
           (auto_line env (case map_of kvs (ascii ''url'') of None \<Rightarrow> PyNone | Some v \<Rightarrow> v))
         = None"
  shows "(success (fst (scrape_beautifulsoup env)) \<and>
          (case results (fst (scrape_beautifulsoup env)) of
             None \<Rightarrow> False | Some rs \<Rightarrow> rs \<noteq> []) \<longrightarrow>
            scrape_auto env =
              ((fst (scrape_beautifulsoup env))
                 \<lparr>method_label := Some (ascii ''Beautiful Soup (Auto)'')\<rparr>,
               [HttpGet (case map_of kvs (ascii ''url'') of None \<Rightarrow> PyNone | Some v \<Rightarrow> v)])) \<and>
         (\<not> (success (fst (scrape_beautifulsoup env)) \<and>
             (case results (fst (scrape_beautifulsoup env)) of
                None \<Rightarrow> False | Some rs \<Rightarrow> rs \<noteq> [])) \<longrightarrow>
          py_print env fallback_line = None \<longrightarrow>
            scrape_auto env =
              ((fst (scrape_selenium env))
                 \<lparr>method_label := Some (ascii ''Selenium (Auto Fallback)'')\<rparr>,
               snd (scrape_beautifulsoup env) @ snd (scrape_selenium env))) \<and>
         (snd (scrape_beautifulsoup env) = [] \<or>
          snd (scrape_beautifulsoup env) =
            [HttpGet (case map_of kvs (ascii ''url'') of None \<Rightarrow> PyNone | Some v \<Rightarrow> v)]) \<and>
         count_list (snd (scrape_selenium env)) DriverSetup \<le> 1"
proof -
  obtain bs t1 where b: "scrape_beautifulsoup env = (bs, t1)"
    by (cases "scrape_beautifulsoup env")
  obtain se t2 where s: "scrape_selenium env = (se, t2)"
    by (cases "scrape_selenium env")
  note shape = static_trace_shape [OF assms(1) b]
  have cond: "(success bs \<and> (case total_found bs of None \<Rightarrow> 0 | Some n \<Rightarrow> n) > 0) =
              (success bs \<and> (case results bs of None \<Rightarrow> False | Some rs \<Rightarrow> rs \<noteq> []))"
    using static_total_found [OF b] by auto
  have count: "count_list t2 DriverSetup \<le> 1"
    using rendered_trace_shape [OF s] .
  have auto: "scrape_auto env =
          (if success bs \<and> (case total_found bs of None \<Rightarrow> 0 | Some n \<Rightarrow> n) > 0
           then (bs\<lparr>method_label := Some (ascii ''Beautiful Soup (Auto)'')\<rparr>, t1)
           else (case py_print env fallback_line of
                   Some e \<Rightarrow> (failure (exn_str e) (Some (ascii ''Auto'')), t1)
                 | None \<Rightarrow>
                     (se\<lparr>method_label := Some (ascii ''Selenium (Auto Fallback)'')\<rparr>, t1 @ t2)))"
    using assms by (simp add: scrape_auto_def b s split: option.split)
  have auto2: "scrape_auto env =
          (if success bs \<and> (case results bs of None \<Rightarrow> False | Some rs \<Rightarrow> rs \<noteq> [])
           then (bs\<lparr>method_label := Some (ascii ''Beautiful Soup (Auto)'')\<rparr>, t1)
           else (case py_print env fallback_line of
                   Some e \<Rightarrow> (failure (exn_str e) (Some (ascii ''Auto'')), t1)
                 | None \<Rightarrow>
                     (se\<lparr>method_label := Some (ascii ''Selenium (Auto Fallback)'')\<rparr>, t1 @ t2)))"
    by (simp only: auto cond)
  show ?thesis
    using shape count by (auto simp add: auto2 b s)
qed

theorem auto_fallback_policy_witness:
  "scrape_auto (example_env (Inr (example_body (ascii ''h1'') (ascii ''Text Content'')))
                  (Inr example_page) [example_tag (ascii ''Hello'') []]
                  (Inr (example_driver None (Inr [example_web_element (ascii ''Hello'') [] []]))))
     = (\<lparr>success = True, results = Some [\<lparr>r_value = ascii ''Hello'', r_index = 1\<rparr>],
         method_label = Some (ascii ''Beautiful Soup (Auto)''), execution_time = Some 12,
         total_found = Some 1, error = None, csv_content = None, filename = None\<rparr>,
        [HttpGet (PyStr (ascii ''https://example.com''))]) \<and>
   scrape_auto (example_env (Inr (example_body (ascii ''h1'') (ascii ''Text Content'')))
                  (Inr example_page) []
                  (Inr (example_driver None (Inr [example_web_element (ascii ''Hello'') [] []]))))
     = (\<lparr>success = True, results = Some [\<lparr>r_value = ascii ''Hello'', r_index = 1\<rparr>],
         method_label = Some (ascii ''Selenium (Auto Fallback)''), execution_time = Some 250,
         total_found = Some 1, error = None, csv_content = None, filename = None\<rparr>,
        [HttpGet (PyStr (ascii ''https://example.com'')), DriverSetup, SessionStart,
         Navigate (PyStr (ascii ''https://example.com'')), Wait (PyStr (ascii ''h1'')), Sleep 2,
         FindElements (PyStr (ascii ''h1'')), SessionQuit])"
proof -
  let ?d = "example_driver None (Inr [example_web_element (ascii ''Hello'') [] []])"
  let ?env1 = "example_env (Inr (example_body (ascii ''h1'') (ascii ''Text Content'')))
                 (Inr example_page) [example_tag (ascii ''Hello'') []] (Inr ?d)"
  let ?env2 = "example_env (Inr (example_body (ascii ''h1'') (ascii ''Text Content'')))
                 (Inr example_page) [] (Inr ?d)"
  let ?kvs = "[(ascii ''url'', PyStr (ascii ''https://example.com'')),
               (ascii ''selector'', PyStr (ascii ''h1'')),
               (ascii ''attribute'', PyStr (ascii ''Text Content''))]"
  have h1: "request_json ?env1 = Inr (PyDict ?kvs)"
    by (simp add: example_env_def example_body_def)
  have h2: "request_json ?env2 = Inr (PyDict ?kvs)"
    by (simp add: example_env_def example_body_def)
  have p1: "py_print ?env1
              (auto_line ?env1 (case map_of ?kvs (ascii ''url'') of None \<Rightarrow> PyNone | Some v \<Rightarrow> v))
            = None"
    by (simp add: eval_defs handler_defs)
  have p2: "py_print ?env2
              (auto_line ?env2 (case map_of ?kvs (ascii ''url'') of None \<Rightarrow> PyNone | Some v \<Rightarrow> v))
            = None"
    by (simp add: eval_defs handler_defs)
  have f2: "py_print ?env2 fallback_line = None"
    by (simp add: eval_defs handler_defs)
  have bs1: "scrape_beautifulsoup ?env1 =
              (\<lparr>success = True, results = Some [\<lparr>r_value = ascii ''Hello'', r_index = 1\<rparr>],
                method_label = Some (ascii ''Beautiful Soup''),
                execution_time = Some 12, total_found = Some 1, error = None,
                csv_content = None, filename = None\<rparr>,
               [HttpGet (PyStr (ascii ''https://example.com''))])"
    by (simp add: eval_defs)
  have bs2: "scrape_beautifulsoup ?env2 =
              (\<lparr>success = True, results = Some [], method_label = Some (ascii ''Beautiful Soup''),
                execution_time = Some 12, total_found = Some 0, error = None,
                csv_content = None, filename = None\<rparr>,
               [HttpGet (PyStr (ascii ''https://example.com''))])"
    by (simp add: eval_defs)
  have se2: "scrape_selenium ?env2 =
              (\<lparr>success = True, results = Some [\<lparr>r_value = ascii ''Hello'', r_index = 1\<rparr>],
                method_label = Some (ascii ''Selenium''), execution_time = Some 250,
                total_found = Some 1, error = None, csv_content = None, filename = None\<rparr>,
               [DriverSetup, SessionStart, Navigate (PyStr (ascii ''https://example.com'')),
                Wait (PyStr (ascii ''h1'')), Sleep 2, FindElements (PyStr (ascii ''h1'')),
                SessionQuit])"
    by (simp add: eval_defs handler_defs)
  have a1: "scrape_auto ?env1 =
              ((fst (scrape_beautifulsoup ?env1))
                 \<lparr>method_label := Some (ascii ''Beautiful Soup (Auto)'')\<rparr>,
               [HttpGet (case map_of ?kvs (ascii ''url'') of None \<Rightarrow> PyNone | Some v \<Rightarrow> v)])"
    using auto_fallback_policy [OF h1 p1] by (simp add: bs1)
  have a2: "scrape_auto ?env2 =
              ((fst (scrape_selenium ?env2))
                 \<lparr>method_label := Some (ascii ''Selenium (Auto Fallback)'')\<rparr>,
               snd (scrape_beautifulsoup ?env2) @ snd (scrape_selenium ?env2))"
    using auto_fallback_policy [OF h2 p2] f2 by (simp add: bs2)
  show ?thesis
    by (simp add: a1 a2 bs1 bs2 se2 ascii_eq_iff)
qed

text \<open>
  The claim as stated fails: for a body that is not a JSON object the orchestrator's own
  read of the url faults, neither strategy runs and the label is \<open>Auto\<close>; the same happens
  for an object body whose url cannot be printed.
\<close>

theorem auto_fallback_policy_counterexample:
  "scrape_auto (example_env (Inr PyNone) (Inr example_page) [example_tag (ascii ''Hello'') []]
                  (Inr (example_driver None (Inr []))))
     = (\<lparr>success = False, results = None, method_label = Some (ascii ''Auto''),
         execution_time = None, total_found = None,
         error = Some ([39] @ ascii ''NoneType'' @ [39] @ ascii '' object has no attribute '' @
                       [39] @ ascii ''get'' @ [39]),
         csv_content = None, filename = None\<rparr>, []) \<and>
   scrape_auto (example_env (Inr (PyDict [(ascii ''url'', PyStr [55296])])) (Inr example_page)
                  [example_tag (ascii ''Hello'') []] (Inr (example_driver None (Inr []))))
     = (\<lparr>success = False, results = None, method_label = Some (ascii ''Auto''),
         execution_time = None, total_found = None,
         error = Some ([39] @ ascii ''utf-8'' @ [39] @ ascii '' codec can'' @ [39] @
                       ascii ''t encode character '' @ [39, 92] @ ascii ''ud800'' @ [39] @
                       ascii '' in position 17: surrogates not allowed''),
         csv_content = None, filename = None\<rparr>, [])"
  by (simp add: eval_defs handler_defs no_attribute_def)

section \<open>Properties of the export formatter\<close>

text \<open>
  A decimal numeral has no character that the writer quotes, so a position is written as
  it is; a header that starts with the two fixed columns starts the text with
  \<open>Index,Value\<close>; and the only faults of the formatter are missing \<^verbatim>\<open>get\<close> methods,
  whose text is not the text of the empty-input failure.
\<close>

lemma str_nat_digits: "set (str_nat n) \<subseteq> {48..57}"
proof (induction n rule: str_nat.induct)
  case (1 n)
  show ?case
  proof (cases "n < 10")
    case True
    then show ?thesis
      by (subst str_nat.simps) simp
  next
    case False
    have "n mod 10 < 10"
      by simp
    then have "48 + n mod 10 \<in> {48..57}"
      by simp
    then show ?thesis
      using False "1.IH" by (subst str_nat.simps) simp
  qed
qed

lemma str_nat_not_special: "\<not> list_ex csv_special (str_nat n)"
proof
  assume "list_ex csv_special (str_nat n)"
  then obtain c where c: "c \<in> set (str_nat n)" and sp: "csv_special c"
    by (auto simp add: list_ex_iff)
  from c have "c \<in> {48..57}"
    using str_nat_digits by blast
  with sp show False
    by (auto simp add: csv_special_def)
qed

lemma csv_field_index: "0 \<le> i \<Longrightarrow> csv_field db (PyInt i) = str_int i"
  by (simp add: csv_field_def str_int_def str_nat_not_special)

lemma csv_writerow_index:
  "0 \<le> i \<Longrightarrow> csv_writerow db (PyInt i # v # cols) = str_int i @ ascii '','' @ csv_writerow db (v # cols)"
  by (simp add: csv_writerow_def csv_field_index)

lemma csv_writerow_header:
  "\<exists>rest. csv_writerow db (PyStr (ascii ''Index'') # PyStr (ascii ''Value'') # hs) = ascii ''Index,Value'' @ rest"
  by (cases hs) (simp_all add: csv_writerow_def csv_field_def csv_special_def ascii_def)

lemma py_get_failure: "py_get v key dflt = Inl e \<Longrightarrow> e = no_attribute v (ascii ''get'')"
  by (cases v) simp_all

lemma no_attribute_text: "exn_str (no_attribute v name) \<noteq> ascii ''No data to export''"
  by (simp add: no_attribute_def ascii_def)

lemma metadata_values_dict: "\<exists>cols. metadata_values (PyDict md) = Inr cols"
  by (simp add: metadata_values_def)

lemma csv_headers_dict:
  "\<exists>hs. csv_headers (PyDict md) = Inr (PyStr (ascii ''Index'') # PyStr (ascii ''Value'') # hs)"
  by (simp add: csv_headers_def)

lemma csv_headers_failure:
  "csv_headers metadata = Inl e \<Longrightarrow> exn_str e \<noteq> ascii ''No data to export''"
  by (auto simp add: csv_headers_def no_attribute_text split: sum.splits dest!: py_get_failure)

lemma metadata_values_failure:
  "metadata_values metadata = Inl e \<Longrightarrow> exn_str e \<noteq> ascii ''No data to export''"
  by (auto simp add: metadata_values_def no_attribute_text split: sum.splits dest!: py_get_failure)

lemma csv_row_failure:
  "csv_row metadata i item = Inl e \<Longrightarrow> exn_str e \<noteq> ascii ''No data to export''"
  by (auto simp add: csv_row_def no_attribute_text split: sum.splits
      dest!: py_get_failure metadata_values_failure)

lemma csv_rows_failure:
  "csv_rows metadata i items = Inl e \<Longrightarrow> exn_str e \<noteq> ascii ''No data to export''"
proof (induction items arbitrary: i)
  case Nil
  then show ?case by simp
next
  case (Cons item items)
  then show ?case
    by (auto split: sum.splits dest: csv_row_failure)
qed

lemma length_csv_rows: "csv_rows metadata i items = Inr rows \<Longrightarrow> length rows = length items"
  by (induction items arbitrary: i rows) (auto split: sum.splits)

lemma csv_rows_dicts:
  assumes "metadata_values metadata = Inr cols"
  shows "csv_rows metadata i (map PyDict fs) =
           Inr (map (\<lambda>(k, f). [PyInt (i + int k + 1),
                                (case map_of f (ascii ''value'') of None \<Rightarrow> PyStr [] | Some v \<Rightarrow> v)] @ cols)
                  (enumerate 0 fs))"
proof (induction fs arbitrary: i)
  case Nil
  show ?case by simp
next
  case (Cons f fs)
  have "enumerate (Suc 0) fs = map (apfst Suc) (enumerate 0 fs)"
    by (rule enumerate_Suc_eq)
  then show ?case
    using assms Cons.IH [of "i + 1"]
    by (simp add: csv_row_def split_beta add.commute add.left_commute)
qed

text \<open>
  C9, as amended. For an export request whose body is a JSON object with a list under
  \<open>results\<close> (or no such key, which stands for the empty list): the response is the failure
  \<open>No data to export\<close>, with no \<open>csv_content\<close>, if the list is empty, and that failure is
  returned only if the list is empty. For a list that is not empty, of records that are
  JSON objects, with a metadata object (or none), the response is a success whose
  \<open>csv_content\<close> is the header row followed by one row for each record, and starts with
  \<open>Index,Value\<close>.
\<close>

theorem export_empty_input:
  assumes "request_json env = Inr (PyDict kvs)"
    and "(case map_of kvs (ascii ''results'') of None \<Rightarrow> PyList [] | Some v \<Rightarrow> v) = PyList rs"
  shows "(rs = [] \<longrightarrow>
            export_csv env =
              \<lparr>success = False, results = None, method_label = None, execution_time = None,
               total_found = None, error = Some (ascii ''No data to export''), csv_content = None,
               filename = None\<rparr>) \<and>
         (error (export_csv env) = Some (ascii ''No data to export'') \<longrightarrow> rs = []) \<and>
         (rs \<noteq> [] \<longrightarrow> rs = map PyDict fs \<longrightarrow>
          (case map_of kvs (ascii ''metadata'') of None \<Rightarrow> PyDict [] | Some m \<Rightarrow> m) = PyDict md \<longrightarrow>
            (\<exists>hs rows rest.
               csv_headers (PyDict md) = Inr (PyStr (ascii ''Index'') # PyStr (ascii ''Value'') # hs) \<and>
               csv_rows (PyDict md) 0 rs = Inr rows \<and>
               length rows = length rs \<and>
               export_csv env =
                 \<lparr>success = True, results = None, method_label = None, execution_time = None,
                  total_found = None, error = None,
                  csv_content =
                    Some (csv_writerow (ucd env) (PyStr (ascii ''Index'') # PyStr (ascii ''Value'') # hs) @
                          concat (map (csv_writerow (ucd env)) rows)),
                  filename = Some (ascii ''web_scraper_results_'' @ str_int (now env) @ ascii ''.csv'')\<rparr> \<and>
               csv_content (export_csv env) = Some (ascii ''Index,Value'' @ rest)))"
proof (intro conjI impI)
  assume "rs = []"
  then show "export_csv env =
              \<lparr>success = False, results = None, method_label = None, execution_time = None,
               total_found = None, error = Some (ascii ''No data to export''), csv_content = None,
               filename = None\<rparr>"
    using assms by (simp add: export_csv_def export_csv_try_def failure_def)
next
  assume e: "error (export_csv env) = Some (ascii ''No data to export'')"
  show "rs = []"
  proof (rule ccontr)
    assume ne: "rs \<noteq> []"
    let ?m = "case map_of kvs (ascii ''metadata'') of None \<Rightarrow> PyDict [] | Some m \<Rightarrow> m"
    have t: "export_csv_try env =
               (case csv_headers ?m of
                  Inl e \<Rightarrow> Inl e
                | Inr headers \<Rightarrow>
                    (case csv_rows ?m 0 rs of
                       Inl e \<Rightarrow> Inl e
                     | Inr rows \<Rightarrow>
                         Inr \<lparr>success = True, results = None, method_label = None,
                              execution_time = None, total_found = None, error = None,
                              csv_content =
                                Some (csv_writerow (ucd env) headers @ concat (map (csv_writerow (ucd env)) rows)),
                              filename =
                                Some (ascii ''web_scraper_results_'' @ str_int (now env) @ ascii ''.csv'')\<rparr>))"
      using assms ne by (simp add: export_csv_try_def split: sum.split)
    show False
    proof (cases "csv_headers ?m")
      case (Inl x)
      then show False
        using e t csv_headers_failure [OF Inl] by (simp add: export_csv_def failure_def)
    next
      case (Inr headers)
      show False
      proof (cases "csv_rows ?m 0 rs")
        case (Inl x)
        then show False
          using e t Inr csv_rows_failure [OF Inl] by (simp add: export_csv_def failure_def)
      next
        case (Inr rows)
        then show False
          using e t \<open>csv_headers ?m = Inr headers\<close> by (simp add: export_csv_def)
      qed
    qed
  qed
next
  assume ne: "rs \<noteq> []" and d: "rs = map PyDict fs"
    and m: "(case map_of kvs (ascii ''metadata'') of None \<Rightarrow> PyDict [] | Some m \<Rightarrow> m) = PyDict md"
  obtain hs where hs: "csv_headers (PyDict md) = Inr (PyStr (ascii ''Index'') # PyStr (ascii ''Value'') # hs)"
    using csv_headers_dict by blast
  obtain cols where cols: "metadata_values (PyDict md) = Inr cols"
    using metadata_values_dict by blast
  obtain rows where rows: "csv_rows (PyDict md) 0 rs = Inr rows"
    using csv_rows_dicts [OF cols, of 0 fs] d by simp
  have len: "length rows = length rs"
    using rows by (rule length_csv_rows)
  obtain rest where rest:
    "csv_writerow (ucd env) (PyStr (ascii ''Index'') # PyStr (ascii ''Value'') # hs) = ascii ''Index,Value'' @ rest"
    using csv_writerow_header by blast
  have ex: "export_csv env =
              \<lparr>success = True, results = None, method_label = None, execution_time = None,
               total_found = None, error = None,
               csv_content =
                 Some (csv_writerow (ucd env) (PyStr (ascii ''Index'') # PyStr (ascii ''Value'') # hs) @
                       concat (map (csv_writerow (ucd env)) rows)),
               filename = Some (ascii ''web_scraper_results_'' @ str_int (now env) @ ascii ''.csv'')\<rparr>"
    using assms ne m hs rows by (simp add: export_csv_def export_csv_try_def)
  have "csv_content (export_csv env) =
          Some (ascii ''Index,Value'' @ (rest @ concat (map (csv_writerow (ucd env)) rows)))"
    using rest by (simp add: ex)
  then show "\<exists>hs rows rest.
               csv_headers (PyDict md) = Inr (PyStr (ascii ''Index'') # PyStr (ascii ''Value'') # hs) \<and>
               csv_rows (PyDict md) 0 rs = Inr rows \<and>
               length rows = length rs \<and>
               export_csv env =
                 \<lparr>success = True, results = None, method_label = None, execution_time = None,
                  total_found = None, error = None,
                  csv_content =
                    Some (csv_writerow (ucd env) (PyStr (ascii ''Index'') # PyStr (ascii ''Value'') # hs) @
                          concat (map (csv_writerow (ucd env)) rows)),
                  filename = Some (ascii ''web_scraper_results_'' @ str_int (now env) @ ascii ''.csv'')\<rparr> \<and>
               csv_content (export_csv env) = Some (ascii ''Index,Value'' @ rest)"
    using hs rows len ex by blast
qed

theorem export_empty_input_witness:
  "export_csv (example_env (Inr (example_export_body [] (PyDict example_metadata)))
                 (Inr example_page) [] (Inr (example_driver None (Inr []))))
     = \<lparr>success = False, results = None, method_label = None, execution_time = None,
        total_found = None, error = Some (ascii ''No data to export''), csv_content = None,
        filename = None\<rparr> \<and>
   map PyDict example_records \<noteq> [] \<and>
   export_csv (example_env
                 (Inr (example_export_body (map PyDict example_records) (PyDict example_metadata)))
                 (Inr example_page) [] (Inr (example_driver None (Inr []))))
     = \<lparr>success = True, results = None, method_label = None, execution_time = None,
        total_found = None, error = None,
        csv_content =
          Some (ascii ''Index,Value,Source URL'' @ [13, 10] @
                ascii ''1,'' @ [34] @ ascii ''a,b'' @ [34] @ ascii '',https://example.com'' @
                [13, 10] @
                ascii ''2,c,https://example.com'' @ [13, 10]),
        filename = Some (ascii ''web_scraper_results_1700.csv'')\<rparr>"
proof -
  let ?e0 = "example_env (Inr (example_export_body [] (PyDict example_metadata)))
               (Inr example_page) [] (Inr (example_driver None (Inr [])))"
  let ?e2 = "example_env
               (Inr (example_export_body (map PyDict example_records) (PyDict example_metadata)))
               (Inr example_page) [] (Inr (example_driver None (Inr [])))"
  let ?k0 = "[(ascii ''results'', PyList []), (ascii ''metadata'', PyDict example_metadata)]"
  let ?k2 = "[(ascii ''results'', PyList (map PyDict example_records)),
              (ascii ''metadata'', PyDict example_metadata)]"
  have h0: "request_json ?e0 = Inr (PyDict ?k0)"
    by (simp add: example_env_def example_export_body_def)
  have r0: "(case map_of ?k0 (ascii ''results'') of None \<Rightarrow> PyList [] | Some v \<Rightarrow> v) = PyList []"
    by simp
  have h2: "request_json ?e2 = Inr (PyDict ?k2)"
    by (simp add: example_env_def example_export_body_def)
  have r2: "(case map_of ?k2 (ascii ''results'') of None \<Rightarrow> PyList [] | Some v \<Rightarrow> v)
            = PyList (map PyDict example_records)"
    by simp
  have ne: "map PyDict example_records \<noteq> []"
    by (simp add: example_records_def)
  have c2: "export_csv ?e2
     = \<lparr>success = True, results = None, method_label = None, execution_time = None,
        total_found = None, error = None,
        csv_content =
          Some (ascii ''Index,Value,Source URL'' @ [13, 10] @
                ascii ''1,'' @ [34] @ ascii ''a,b'' @ [34] @ ascii '',https://example.com'' @
                [13, 10] @
                ascii ''2,c,https://example.com'' @ [13, 10]),
        filename = Some (ascii ''web_scraper_results_1700.csv'')\<rparr>"
    by (simp add: eval_defs export_defs)
  show ?thesis
    using export_empty_input [OF h0 r0, of "[]" "[]"]
      export_empty_input [OF h2 r2, of example_records example_metadata] ne c2
    by simp
qed

text \<open>
  The claim as stated fails: a list that is not empty gives a failure and no text when the
  metadata is \<^verbatim>\<open>null\<close>, or when an entry of the list is not a JSON object.
\<close>

theorem export_empty_input_counterexample:
  "map PyDict example_records \<noteq> [] \<and>
   export_csv (example_env (Inr (example_export_body (map PyDict example_records) PyNone))
                 (Inr example_page) [] (Inr (example_driver None (Inr []))))
     = \<lparr>success = False, results = None, method_label = None, execution_time = None,
        total_found = None,
        error = Some ([39] @ ascii ''NoneType'' @ [39] @ ascii '' object has no attribute '' @
                      [39] @ ascii ''get'' @ [39]),
        csv_content = None, filename = None\<rparr> \<and>
   export_csv (example_env (Inr (example_export_body [PyInt 1] (PyDict example_metadata)))
                 (Inr example_page) [] (Inr (example_driver None (Inr []))))
     = \<lparr>success = False, results = None, method_label = None, execution_time = None,
        total_found = None,
        error = Some ([39] @ ascii ''int'' @ [39] @ ascii '' object has no attribute '' @
                      [39] @ ascii ''get'' @ [39]),
        csv_content = None, filename = None\<rparr>"
  by (simp add: eval_defs export_defs)

text \<open>
  C10. For a list of records that is not empty, the data row written for the record at
  position \<open>i\<close> (counted from 0, as \<^verbatim>\<open>enumerate\<close> does) starts with the decimal numeral of
  \<open>i + 1\<close> and a comma, followed by the record's \<open>value\<close> and the metadata values. The
  \<open>index\<close> stored in a record does not occur: in the example both records store 7 and
  the rows are numbered 1 and 2.
\<close>

theorem export_index_is_position:
  assumes "request_json env = Inr (PyDict kvs)"
    and "(case map_of kvs (ascii ''results'') of None \<Rightarrow> PyList [] | Some v \<Rightarrow> v) = PyList (map PyDict fs)"
    and "fs \<noteq> []"
    and "(case map_of kvs (ascii ''metadata'') of None \<Rightarrow> PyDict [] | Some m \<Rightarrow> m) = PyDict md"
  shows "\<exists>hs cols.
           csv_headers (PyDict md) = Inr hs \<and>
           metadata_values (PyDict md) = Inr cols \<and>
           csv_content (export_csv env) =
             Some (csv_writerow (ucd env) hs @
                   concat (map (\<lambda>(i, f).
                                  str_int (int i + 1) @ ascii '','' @
                                  csv_writerow (ucd env)
                                    ((case map_of f (ascii ''value'') of None \<Rightarrow> PyStr [] | Some v \<Rightarrow> v)
                                     # cols))
                             (enumerate 0 fs)))"
proof -
  obtain hs where hs: "csv_headers (PyDict md) = Inr hs"
    using csv_headers_dict by blast
  obtain cols where cols: "metadata_values (PyDict md) = Inr cols"
    using metadata_values_dict by blast
  let ?row = "\<lambda>(k, f). [PyInt (0 + int k + 1),
                           (case map_of f (ascii ''value'') of None \<Rightarrow> PyStr [] | Some v \<Rightarrow> v)] @ cols"
  have rows: "csv_rows (PyDict md) 0 (map PyDict fs) = Inr (map ?row (enumerate 0 fs))"
    using csv_rows_dicts [OF cols, of 0 fs] .
  have "csv_content (export_csv env) =
          Some (csv_writerow (ucd env) hs @ concat (map (csv_writerow (ucd env)) (map ?row (enumerate 0 fs))))"
    using assms hs rows by (simp add: export_csv_def export_csv_try_def)
  then have "csv_content (export_csv env) =
          Some (csv_writerow (ucd env) hs @
                concat (map (\<lambda>(i, f).
                               str_int (int i + 1) @ ascii '','' @
                               csv_writerow (ucd env)
                                 ((case map_of f (ascii ''value'') of None \<Rightarrow> PyStr [] | Some v \<Rightarrow> v)
                                  # cols))
                          (enumerate 0 fs)))"
    by (simp add: csv_writerow_index case_prod_unfold comp_def)
  then show ?thesis
    using hs cols by blast
qed

theorem export_index_is_position_witness:
  "example_records \<noteq> [] \<and>
   map (\<lambda>f. map_of f (ascii ''index'')) example_records = [Some (PyInt 7), Some (PyInt 7)] \<and>
   csv_content
     (export_csv (example_env
                    (Inr (example_export_body (map PyDict example_records)
                            (PyDict example_metadata)))
                    (Inr example_page) [] (Inr (example_driver None (Inr [])))))
     = Some (ascii ''Index,Value,Source URL'' @ [13, 10] @
             ascii ''1,'' @ [34] @ ascii ''a,b'' @ [34] @ ascii '',https://example.com'' @
             [13, 10] @
             ascii ''2,c,https://example.com'' @ [13, 10])"
proof -
  let ?e2 = "example_env
               (Inr (example_export_body (map PyDict example_records) (PyDict example_metadata)))
               (Inr example_page) [] (Inr (example_driver None (Inr [])))"
  let ?k2 = "[(ascii ''results'', PyList (map PyDict example_records)),
              (ascii ''metadata'', PyDict example_metadata)]"
  have h2: "request_json ?e2 = Inr (PyDict ?k2)"
    by (simp add: example_env_def example_export_body_def)
  have r2: "(case map_of ?k2 (ascii ''results'') of None \<Rightarrow> PyList [] | Some v \<Rightarrow> v)
            = PyList (map PyDict example_records)"
    by simp
  have ne: "example_records \<noteq> []"
    by (simp add: example_records_def)
  have m2: "(case map_of ?k2 (ascii ''metadata'') of None \<Rightarrow> PyDict [] | Some m \<Rightarrow> m)
            = PyDict example_metadata"
    by (simp add: ascii_eq_iff)
  have ix: "map (\<lambda>f. map_of f (ascii ''index'')) example_records
            = [Some (PyInt 7), Some (PyInt 7)]"
    by (simp add: example_records_def ascii_eq_iff)
  have c2: "csv_content (export_csv ?e2)
     = Some (ascii ''Index,Value,Source URL'' @ [13, 10] @
             ascii ''1,'' @ [34] @ ascii ''a,b'' @ [34] @ ascii '',https://example.com'' @
             [13, 10] @
             ascii ''2,c,https://example.com'' @ [13, 10])"
    by (simp add: eval_defs export_defs)
  show ?thesis
    using export_index_is_position [OF h2 r2 ne m2] ne ix c2
    by simp
qed

end
